theory Spec2Isabelle
  imports Main "HOL-Library.AList"
begin

section \<open>The manifest renderer of service-mesh-hub (pkg/render/renderer.go)\<close>

text \<open>
  A shallow embedding of the render pipeline: input validation, template expansion of the
  input values, coalescing of the values sources, acquisition of manifests from the
  installation spec, and filtering by label.

  Conventions of the embedding.
  \<^item> A Go struct is a record, a protobuf oneof is a datatype, a pointer that the code
    dereferences is an \<open>option\<close> (\<open>None\<close> is nil).
  \<^item> A Go map is an association list read with \<open>map_of\<close> and written with
    \<open>AList.update\<close> (an existing key is overwritten in place, a new key is added). A
    \<open>range\<close> loop over a map visits the entries in list order; Go leaves that order open,
    and no theorem below depends on it unless it says so.
  \<^item> A call has one of three outcomes: it returns a value, it returns an error value, or
    it panics.
  \<^item> The collaborators that live outside renderer.go (the template engine, the YAML
    conversions, the chart renderer, the archive fetcher, the resource conversions, the
    layer application) are the fields of an environment record that every operation takes.
\<close>

subsection \<open>Errors and outcomes\<close>

datatype error =
    MissingInstallSpecError
  | FailedToRenderManifestsError error
  | FailedToConvertManifestsError error
  | FailedRenderValueTemplatesError error
  | MissingInputForRequiredLayer error
  | MissingInputForRequireParam string
  | UnrecognizedParamError string
  | IncorrectNumberOfInputLayersError
  | NoInstallationStepError
  | UnnamedStepError
  | DuplicateStepNameError string
  | InvalidOptionError string string
  | CollaboratorError string

text \<open>
  \<open>NoInstallationStepError\<close>, \<open>UnnamedStepError\<close> and \<open>DuplicateStepNameError\<close> are the
  three \<open>errors.Errorf\<close> values built inside \<open>getManifestsFromSteps\<close>;
  \<open>InvalidOptionError\<close> is the lookup error of the layer-option helpers;
  \<open>CollaboratorError\<close> is any error value produced by a collaborator.
\<close>

text \<open>
  The two ways the code can panic: a field read through a nil pointer, and
  \<open>template.Must\<close>, which panics with the error of a failed \<open>Parse\<close>.
\<close>

datatype panic = NilPointerDereference | TemplateMust error

datatype 'a outcome = Ok 'a | Err error | Panic panic

subsection \<open>Data model\<close>

record Parameter =
  param_Name :: string
  param_Required :: bool

record LayerOption =
  option_Id :: string
  HelmValues :: string
  option_Parameters :: "Parameter list"
  ResourceDependencies :: "string list"

record Layer =
  layer_Id :: string
  Optional :: bool
  Options :: "LayerOption list"

record Flavor =
  flavor_Name :: string
  CustomizationLayers :: "Layer list"
  flavor_Parameters :: "Parameter list"

record LayerInput =
  LayerId :: string
  OptionId :: string

record ResourceRef =
  ref_Name :: string
  ref_Namespace :: string

record ValuesInputs =
  Name :: string
  InstallNamespace :: string
  Flavor :: "Flavor option"
  Layers :: "LayerInput list"
  MeshRef :: ResourceRef
  UserDefinedValues :: string
  SpecDefinedValues :: string
  Params :: "(string \<times> string) list"

text \<open>
  The installation source of a spec and of a step are protobuf oneofs: \<open>None\<close> is the unset
  oneof, and the payload of a variant is a pointer.
\<close>

record GithubRepositoryLocation =
  Org :: string
  Repo :: string
  Ref :: string
  Directory :: string

record TgzLocation =
  Uri :: string

datatype StepSource =
    Step_GithubChart "GithubRepositoryLocation option"
  | Step_HelmArchive "TgzLocation option"
  | Step_ManifestsArchive "TgzLocation option"

record InstallationSteps_Step =
  step_Name :: string
  Step :: "StepSource option"

record InstallationSteps =
  Steps :: "InstallationSteps_Step list"

datatype InstallationSpec =
    Spec_GithubChart "GithubRepositoryLocation option"
  | Spec_HelmArchive "TgzLocation option"
  | Spec_ManifestsArchive "TgzLocation option"
  | Spec_InstallationSteps "InstallationSteps option"

record VersionedApplicationSpec =
  InstallationSpec :: "InstallationSpec option"
  spec_Parameters :: "Parameter list"
  RequiredLabels :: "(string \<times> string) list"

text \<open>
  An unstructured resource: its labels (nil when it has none) and the rest of the object.
  A manifest is a rendered text document.
\<close>

record Resource =
  res_Labels :: "(string \<times> string) list option"
  res_Object :: string

type_synonym Manifests = "string list"

subsection \<open>ValidateInputs\<close>

text \<open>
  Modelled from the spec: \<open>GetRequiredLayerCount\<close> is not in renderer.go. The spec says
  it is the number of required layers declared by the Flavor. For a nil Flavor the value
  does not matter: the next statement of \<open>ValidateInputs\<close> dereferences the Flavor.
\<close>

definition GetRequiredLayerCount :: "Flavor option \<Rightarrow> nat" where
  "GetRequiredLayerCount flavor =
     (case flavor of
        None \<Rightarrow> 0
      | Some f \<Rightarrow> length (filter (\<lambda>layer. \<not> Optional layer) (CustomizationLayers f)))"

text \<open>
  Modelled from the spec: \<open>GetLayerOption\<close> is not in renderer.go. The spec says the
  option is resolved by name within the layer's option set; a name that matches no option
  is a lookup error.
\<close>

definition GetLayerOption :: "string \<Rightarrow> Layer \<Rightarrow> error + LayerOption" where
  "GetLayerOption optionId layer =
     (case find (\<lambda>option. option_Id option = optionId) (Options layer) of
        None \<Rightarrow> Inl (InvalidOptionError optionId (layer_Id layer))
      | Some option \<Rightarrow> Inr option)"

text \<open>
  The inner loop of lines 131-136: \<open>optionId\<close> starts empty and is overwritten by every
  layer input whose layer id matches; the loop has no \<open>break\<close>.
\<close>

fun selectOptionId :: "LayerInput list \<Rightarrow> string \<Rightarrow> string \<Rightarrow> string" where
  "selectOptionId [] flavorLayerId optionId = optionId"
| "selectOptionId (layerInput # rest) flavorLayerId optionId =
     selectOptionId rest flavorLayerId
       (if LayerId layerInput = flavorLayerId then OptionId layerInput else optionId)"

text \<open>The outer loop of lines 130-145 over the layers the Flavor declares.\<close>

fun selectOptions ::
  "LayerInput list \<Rightarrow> Layer list \<Rightarrow> LayerOption list \<Rightarrow> LayerOption list outcome" where
  "selectOptions layerInputs [] selectedOptions = Ok selectedOptions"
| "selectOptions layerInputs (flavorLayer # rest) selectedOptions =
     (case GetLayerOption (selectOptionId layerInputs (layer_Id flavorLayer) []) flavorLayer of
        Inl err \<Rightarrow>
          if \<not> Optional flavorLayer then Err (MissingInputForRequiredLayer err)
          else selectOptions layerInputs rest selectedOptions
      | Inr option \<Rightarrow> selectOptions layerInputs rest (selectedOptions @ [option]))"

text \<open>Lines 147-151: the injected dependency validator, once per selected option.\<close>

fun validateOptions :: "(string list \<Rightarrow> error option) \<Rightarrow> LayerOption list \<Rightarrow> error option" where
  "validateOptions validate [] = None"
| "validateOptions validate (o1 # rest) =
     (case validate (ResourceDependencies o1) of
        Some err \<Rightarrow> Some err
      | None \<Rightarrow> validateOptions validate rest)"

text \<open>Lines 154-165: \<open>allParameters[param.Name] = param\<close> for spec, Flavor, options.\<close>

definition putParameter ::
  "(string \<times> Parameter) list \<Rightarrow> Parameter \<Rightarrow> (string \<times> Parameter) list" where
  "putParameter allParameters param = AList.update (param_Name param) param allParameters"

definition buildAllParameters ::
  "Parameter list \<Rightarrow> Parameter list \<Rightarrow> LayerOption list \<Rightarrow> (string \<times> Parameter) list" where
  "buildAllParameters specParameters flavorParameters selectedOptions =
     foldl (\<lambda>allParameters option. foldl putParameter allParameters (option_Parameters option))
       (foldl putParameter (foldl putParameter [] specParameters) flavorParameters)
       selectedOptions"

text \<open>Reading a Go map of strings: an absent key reads as the empty string.\<close>

definition readParam :: "(string \<times> string) list \<Rightarrow> string \<Rightarrow> string" where
  "readParam params name = (case map_of params name of None \<Rightarrow> [] | Some v \<Rightarrow> v)"

text \<open>Lines 166-177: the two checks over the namespace and over the supplied names.\<close>

definition checkParameters ::
  "(string \<times> Parameter) list \<Rightarrow> (string \<times> string) list \<Rightarrow> unit outcome" where
  "checkParameters allParameters params =
     (case find (\<lambda>param. param_Required param \<and> readParam params (param_Name param) = [])
             (map snd allParameters) of
        Some param \<Rightarrow> Err (MissingInputForRequireParam (param_Name param))
      | None \<Rightarrow>
          (case find (\<lambda>name. map_of allParameters name = None) (map fst params) of
             Some name \<Rightarrow> Err (UnrecognizedParamError name)
           | None \<Rightarrow> Ok ()))"

definition ValidateInputs ::
  "ValuesInputs \<Rightarrow> VersionedApplicationSpec \<Rightarrow> (string list \<Rightarrow> error option) \<Rightarrow>
   unit outcome" where
  "ValidateInputs inputs spec validate =
     (if length (Layers inputs) < GetRequiredLayerCount (Flavor inputs)
      then Err IncorrectNumberOfInputLayersError
      else
        (case Flavor inputs of
           None \<Rightarrow> Panic NilPointerDereference
         | Some flavor \<Rightarrow>
             (case selectOptions (Layers inputs) (CustomizationLayers flavor) [] of
                Panic p \<Rightarrow> Panic p
              | Err err \<Rightarrow> Err err
              | Ok selectedOptions \<Rightarrow>
                  (case validateOptions validate selectedOptions of
                     Some err \<Rightarrow> Err err
                   | None \<Rightarrow>
                       checkParameters
                         (buildAllParameters (spec_Parameters spec) (flavor_Parameters flavor)
                            selectedOptions)
                         (Params inputs)))))"

text \<open>
  Two predicates for stating what the parameter checks decide: a name of the namespace
  that is marked required and whose supplied value is absent or empty, and a supplied name
  that the namespace does not know.
\<close>

definition missingRequired ::
  "(string \<times> Parameter) list \<Rightarrow> (string \<times> string) list \<Rightarrow> string \<Rightarrow> bool" where
  "missingRequired allParameters params name =
     (case map_of allParameters name of
        None \<Rightarrow> False
      | Some param \<Rightarrow> param_Required param \<and> readParam params name = [])"

definition unrecognized ::
  "(string \<times> Parameter) list \<Rightarrow> (string \<times> string) list \<Rightarrow> string \<Rightarrow> bool" where
  "unrecognized allParameters params name =
     (map_of params name \<noteq> None \<and> map_of allParameters name = None)"

subsection \<open>The collaborators\<close>

text \<open>Nested values maps, as the YAML conversions produce them.\<close>

datatype yaml = Scalar string | Seq "yaml list" | Table "(string \<times> yaml) list"

record GithubChartRef =
  chart_Owner :: string
  chart_Repo :: string
  chart_Ref :: string
  chart_ChartDirectory :: string

text \<open>
  \<open>tmplParse text\<close> is \<open>template.New(name).Parse(text)\<close>: it yields the error for
  a malformed text, and a parsed template is determined by its text.
  \<open>tmplExecute text data\<close> is \<open>Execute\<close> of that template on the input bundle, into
  an empty buffer. The render calls take (source, values, release name, namespace, kube
  version). \<open>validateDependencies\<close> is the validator the renderer was built with.
\<close>

record env =
  tmplParse :: "string \<Rightarrow> error option"
  tmplExecute :: "string \<Rightarrow> ValuesInputs \<Rightarrow> error + string"
  ConvertYamlStringToNestedMap :: "string \<Rightarrow> error + (string \<times> yaml) list"
  ConvertParamsToNestedMap :: "(string \<times> string) list \<Rightarrow> error + (string \<times> yaml) list"
  ConvertNestedMapToYaml :: "(string \<times> yaml) list \<Rightarrow> error + string"
  RenderManifests :: "string \<Rightarrow> string \<Rightarrow> string \<Rightarrow> string \<Rightarrow> string \<Rightarrow> error + Manifests"
  RenderManifestsFromGithub ::
    "GithubChartRef \<Rightarrow> string \<Rightarrow> string \<Rightarrow> string \<Rightarrow> string \<Rightarrow> error + Manifests"
  GetManifestsFromRemoteTar :: "string \<Rightarrow> error + Manifests"
  ResourceList :: "Manifests \<Rightarrow> error + Resource list"
  ManifestsFromResources :: "Resource list \<Rightarrow> error + Manifests"
  ApplyLayers :: "ValuesInputs \<Rightarrow> Manifests \<Rightarrow> error + Resource list"
  validateDependencies :: "string list \<Rightarrow> error option"

text \<open>The calls that acquire manifests from outside, in the order they are made.\<close>

datatype call =
    Call_RenderManifests string string string string string
  | Call_RenderManifestsFromGithub GithubChartRef string string string string
  | Call_GetManifestsFromRemoteTar string

subsection \<open>ExecInputValuesTemplates\<close>

text \<open>
  The bundle is passed by value, but its \<open>Params\<close> field is a Go map: the copy and the
  caller's bundle share one map, and line 456 writes into it. The model therefore returns
  a pair: the outcome of the call, and the contents of the shared map when the call ends
  (what the caller sees in its own bundle afterwards).

  \<open>execParams\<close> is the loop of lines 451-458 over the entries still to visit; each
  template is executed on the bundle as it is at that moment.
\<close>

fun execParams ::
  "env \<Rightarrow> ValuesInputs \<Rightarrow> (string \<times> string) list \<Rightarrow>
   ValuesInputs outcome \<times> (string \<times> string) list" where
  "execParams env inputs [] = (Ok inputs, Params inputs)"
| "execParams env inputs ((paramName, paramValue) # rest) =
     (case tmplParse env paramValue of
        Some err \<Rightarrow> (Panic (TemplateMust err), Params inputs)
      | None \<Rightarrow>
          (case tmplExecute env paramValue inputs of
             Inl err \<Rightarrow> (Err err, Params inputs)
           | Inr text \<Rightarrow>
               execParams env
                 (inputs\<lparr>Params := AList.update paramName text (Params inputs)\<rparr>) rest))"

definition ExecInputValuesTemplates ::
  "env \<Rightarrow> ValuesInputs \<Rightarrow> ValuesInputs outcome \<times> (string \<times> string) list" where
  "ExecInputValuesTemplates env inputs =
     (case tmplParse env (SpecDefinedValues inputs) of
        Some err \<Rightarrow> (Panic (TemplateMust err), Params inputs)
      | None \<Rightarrow>
          (case tmplExecute env (SpecDefinedValues inputs) inputs of
             Inl err \<Rightarrow> (Err err, Params inputs)
           | Inr specText \<Rightarrow>
               (let inputs1 = inputs\<lparr>SpecDefinedValues := specText\<rparr> in
                case tmplParse env (UserDefinedValues inputs1) of
                  Some err \<Rightarrow> (Panic (TemplateMust err), Params inputs1)
                | None \<Rightarrow>
                    (case tmplExecute env (UserDefinedValues inputs1) inputs1 of
                       Inl err \<Rightarrow> (Err err, Params inputs1)
                     | Inr userText \<Rightarrow>
                         (let inputs2 = inputs1\<lparr>UserDefinedValues := userText\<rparr> in
                          execParams env inputs2 (Params inputs2))))))"

subsection \<open>ComputeValueOverrides\<close>

text \<open>
  Modelled from the spec: \<open>CoalesceValuesMap\<close> is not in renderer.go. The spec says: for
  each key in the overlay, if both the base and the overlay values are mappings, merge
  recursively; otherwise the overlay value replaces the base value (scalars and sequences
  are replaced whole).
\<close>

fun CoalesceValuesMap ::
  "(string \<times> yaml) list \<Rightarrow> (string \<times> yaml) list \<Rightarrow> (string \<times> yaml) list" where
  "CoalesceValuesMap base [] = base"
| "CoalesceValuesMap base ((key, Table overlayValue) # rest) =
     CoalesceValuesMap
       (AList.update key
          (case map_of base key of
             Some (Table baseValue) \<Rightarrow> Table (CoalesceValuesMap baseValue overlayValue)
           | _ \<Rightarrow> Table overlayValue)
          base)
       rest"
| "CoalesceValuesMap base ((key, overlayValue) # rest) =
     CoalesceValuesMap (AList.update key overlayValue base) rest"

text \<open>
  Modelled from the spec: \<open>GetLayerOptionFromFlavor\<close> is not in renderer.go. The spec
  says the layer input's option is resolved, and a resolution failure is a lookup error:
  the layer is found by id among the Flavor's layers, the option by name within it.
\<close>

definition GetLayerOptionFromFlavor ::
  "string \<Rightarrow> string \<Rightarrow> Flavor option \<Rightarrow> error + LayerOption" where
  "GetLayerOptionFromFlavor layerId optionId flavor =
     (case flavor of
        None \<Rightarrow> Inl (InvalidOptionError optionId layerId)
      | Some f \<Rightarrow>
          (case find (\<lambda>layer. layer_Id layer = layerId) (CustomizationLayers f) of
             None \<Rightarrow> Inl (InvalidOptionError optionId layerId)
           | Some layer \<Rightarrow> GetLayerOption optionId layer))"

text \<open>The loop of lines 197-213 over the layer inputs, in the order supplied.\<close>

fun coalesceLayers ::
  "env \<Rightarrow> Flavor option \<Rightarrow> (string \<times> yaml) list \<Rightarrow> LayerInput list \<Rightarrow>
   (string \<times> yaml) list outcome" where
  "coalesceLayers env flavor valuesMap [] = Ok valuesMap"
| "coalesceLayers env flavor valuesMap (layerInput # rest) =
     (case GetLayerOptionFromFlavor (LayerId layerInput) (OptionId layerInput) flavor of
        Inl err \<Rightarrow> Err err
      | Inr option \<Rightarrow>
          if HelmValues option \<noteq> [] then
            (case ConvertYamlStringToNestedMap env (HelmValues option) of
               Inl err \<Rightarrow> Err err
             | Inr layerValues \<Rightarrow>
                 coalesceLayers env flavor (CoalesceValuesMap valuesMap layerValues) rest)
          else coalesceLayers env flavor valuesMap rest)"

definition ComputeValueOverrides :: "env \<Rightarrow> ValuesInputs \<Rightarrow> string outcome" where
  "ComputeValueOverrides env inputs =
     (case ConvertYamlStringToNestedMap env (SpecDefinedValues inputs) of
        Inl err \<Rightarrow> Err err
      | Inr specValues \<Rightarrow>
          (case coalesceLayers env (Flavor inputs) (CoalesceValuesMap [] specValues)
                  (Layers inputs) of
             Panic p \<Rightarrow> Panic p
           | Err err \<Rightarrow> Err err
           | Ok valuesMap1 \<Rightarrow>
               (case ConvertParamsToNestedMap env (Params inputs) of
                  Inl err \<Rightarrow> Err err
                | Inr paramValues \<Rightarrow>
                    (case ConvertYamlStringToNestedMap env (UserDefinedValues inputs) of
                       Inl err \<Rightarrow> Err err
                     | Inr userValues \<Rightarrow>
                         (case ConvertNestedMapToYaml env
                                 (CoalesceValuesMap
                                    (CoalesceValuesMap valuesMap1 paramValues) userValues) of
                            Inl err \<Rightarrow> Err err
                          | Inr values \<Rightarrow> Ok values)))))"

subsection \<open>Acquiring manifests\<close>

text \<open>
  Every acquisition function returns its outcome together with the calls it made to the
  chart renderer and the archive fetcher, in order.
\<close>

definition getManifestsFromHelm ::
  "env \<Rightarrow> TgzLocation option \<Rightarrow> ValuesInputs \<Rightarrow> Manifests outcome \<times> call list" where
  "getManifestsFromHelm env helmInstallSpec inputs =
     (case ComputeValueOverrides env inputs of
        Panic p \<Rightarrow> (Panic p, [])
      | Err err \<Rightarrow> (Err err, [])
      | Ok values \<Rightarrow>
          (case helmInstallSpec of
             None \<Rightarrow> (Panic NilPointerDereference, [])
           | Some location \<Rightarrow>
               ((case RenderManifests env (Uri location) values (Name inputs)
                        (InstallNamespace inputs) [] of
                   Inl err \<Rightarrow> Err (FailedToRenderManifestsError err)
                 | Inr manifests \<Rightarrow> Ok manifests),
                [Call_RenderManifests (Uri location) values (Name inputs)
                   (InstallNamespace inputs) []])))"

definition getManifestsFromGithub ::
  "env \<Rightarrow> GithubRepositoryLocation option \<Rightarrow> ValuesInputs \<Rightarrow>
   Manifests outcome \<times> call list" where
  "getManifestsFromGithub env githubInstallSpec inputs =
     (case githubInstallSpec of
        None \<Rightarrow> (Panic NilPointerDereference, [])
      | Some location \<Rightarrow>
          (let ref = \<lparr>chart_Owner = Org location, chart_Repo = Repo location,
                        chart_Ref = Ref location, chart_ChartDirectory = Directory location\<rparr>
           in case ComputeValueOverrides env inputs of
                Panic p \<Rightarrow> (Panic p, [])
              | Err err \<Rightarrow> (Err err, [])
              | Ok values \<Rightarrow>
                  ((case RenderManifestsFromGithub env ref values (Name inputs)
                           (InstallNamespace inputs) [] of
                      Inl err \<Rightarrow> Err (FailedToRenderManifestsError err)
                    | Inr manifests \<Rightarrow> Ok manifests),
                   [Call_RenderManifestsFromGithub ref values (Name inputs)
                      (InstallNamespace inputs) []])))"

text \<open>\<open>GetUri\<close> is the generated getter: on a nil location it yields the empty string.\<close>

definition GetUri :: "TgzLocation option \<Rightarrow> string" where
  "GetUri location = (case location of None \<Rightarrow> [] | Some l \<Rightarrow> Uri l)"

definition getManifestsFromArchive ::
  "env \<Rightarrow> TgzLocation option \<Rightarrow> ValuesInputs \<Rightarrow> Manifests outcome \<times> call list" where
  "getManifestsFromArchive env manifestsArchive inputs =
     ((case GetManifestsFromRemoteTar env (GetUri manifestsArchive) of
         Inl err \<Rightarrow> Err (FailedToRenderManifestsError err)
       | Inr manifests \<Rightarrow> Ok manifests),
      [Call_GetManifestsFromRemoteTar (GetUri manifestsArchive)])"

definition getManifestsFromInstallationStep ::
  "env \<Rightarrow> ValuesInputs \<Rightarrow> InstallationSteps_Step \<Rightarrow> Manifests outcome \<times> call list" where
  "getManifestsFromInstallationStep env inputs step =
     (case Step step of
        Some (Step_GithubChart githubChart) \<Rightarrow> getManifestsFromGithub env githubChart inputs
      | Some (Step_HelmArchive helmArchive) \<Rightarrow> getManifestsFromHelm env helmArchive inputs
      | Some (Step_ManifestsArchive manifestsArchive) \<Rightarrow>
          getManifestsFromArchive env manifestsArchive inputs
      | None \<Rightarrow> (Err MissingInstallSpecError, []))"

definition InstallationStepLabel :: string where
  "InstallationStepLabel = ''service-mesh-hub.solo.io/installation_step''"

text \<open>Lines 381-388, for one resource: read the labels, make them if nil, set, write back.\<close>

definition labelResource :: "string \<Rightarrow> Resource \<Rightarrow> Resource" where
  "labelResource stepName resource =
     (let labels = (case res_Labels resource of None \<Rightarrow> [] | Some l \<Rightarrow> l)
      in resource\<lparr>res_Labels := Some (AList.update InstallationStepLabel stepName labels)\<rparr>)"

text \<open>
  The loop of lines 361-396 over the steps still to visit, with the names seen so far and
  the manifests combined so far.
\<close>

fun stepsLoop ::
  "env \<Rightarrow> ValuesInputs \<Rightarrow> InstallationSteps_Step list \<Rightarrow> string list \<Rightarrow> Manifests \<Rightarrow>
   Manifests outcome \<times> call list" where
  "stepsLoop env inputs [] uniqueStepNames combinedManifests = (Ok combinedManifests, [])"
| "stepsLoop env inputs (step # rest) uniqueStepNames combinedManifests =
     (if step_Name step = [] then (Err UnnamedStepError, [])
      else
        (case find (\<lambda>name. step_Name step = name) uniqueStepNames of
           Some name \<Rightarrow> (Err (DuplicateStepNameError name), [])
         | None \<Rightarrow>
             (case getManifestsFromInstallationStep env inputs step of
                (Panic p, calls) \<Rightarrow> (Panic p, calls)
              | (Err err, calls) \<Rightarrow> (Err err, calls)
              | (Ok manifests, calls) \<Rightarrow>
                  (case ResourceList env manifests of
                     Inl err \<Rightarrow> (Err err, calls)
                   | Inr resources \<Rightarrow>
                       (case ManifestsFromResources env
                               (map (labelResource (step_Name step)) resources) of
                          Inl err \<Rightarrow> (Err err, calls)
                        | Inr labelled \<Rightarrow>
                            (case stepsLoop env inputs rest
                                    (uniqueStepNames @ [step_Name step])
                                    (combinedManifests @ labelled) of
                               (result, laterCalls) \<Rightarrow> (result, calls @ laterCalls)))))))"

definition getManifestsFromSteps ::
  "env \<Rightarrow> InstallationSteps option \<Rightarrow> ValuesInputs \<Rightarrow> Manifests outcome \<times> call list" where
  "getManifestsFromSteps env steps inputs =
     (case steps of
        None \<Rightarrow> (Panic NilPointerDereference, [])
      | Some s \<Rightarrow>
          if length (Steps s) = 0 then (Err NoInstallationStepError, [])
          else stepsLoop env inputs (Steps s) [] [])"

text \<open>
  For stating what the loop does with a step that goes through: the step is named, its
  manifests are acquired with the given calls, they convert to the given resources, and
  the labelled resources convert back to the given manifests.
\<close>

definition stepSucceeds ::
  "env \<Rightarrow> ValuesInputs \<Rightarrow> InstallationSteps_Step \<Rightarrow> Resource list \<Rightarrow> Manifests \<Rightarrow>
   call list \<Rightarrow> bool" where
  "stepSucceeds env inputs step resources labelled calls =
     (step_Name step \<noteq> [] \<and>
      (case getManifestsFromInstallationStep env inputs step of
         (Ok manifests, made) \<Rightarrow>
           made = calls \<and> ResourceList env manifests = Inr resources \<and>
           ManifestsFromResources env (map (labelResource (step_Name step)) resources) =
             Inr labelled
       | _ \<Rightarrow> False))"

definition GetManifestsFromApplicationSpec ::
  "env \<Rightarrow> ValuesInputs \<Rightarrow> VersionedApplicationSpec \<Rightarrow> Manifests outcome \<times> call list" where
  "GetManifestsFromApplicationSpec env inputs spec =
     (case InstallationSpec spec of
        Some (Spec_GithubChart githubChart) \<Rightarrow> getManifestsFromGithub env githubChart inputs
      | Some (Spec_HelmArchive helmArchive) \<Rightarrow> getManifestsFromHelm env helmArchive inputs
      | Some (Spec_ManifestsArchive manifestsArchive) \<Rightarrow>
          getManifestsFromArchive env manifestsArchive inputs
      | Some (Spec_InstallationSteps installationSteps) \<Rightarrow>
          getManifestsFromSteps env installationSteps inputs
      | None \<Rightarrow> (Err MissingInstallSpecError, []))"

subsection \<open>FilterByLabel and the renderer\<close>

text \<open>
  Modelled from the spec: \<open>WithLabels\<close> is not in renderer.go (it belongs to the resource
  library). The spec says the filter returns only the resources whose label set contains
  every required key/value pair, with an exact match on key and value.
\<close>

definition WithLabels :: "Resource list \<Rightarrow> (string \<times> string) list \<Rightarrow> Resource list" where
  "WithLabels resources labels =
     filter (\<lambda>resource.
               list_all (\<lambda>(k, v).
                  map_of (case res_Labels resource of None \<Rightarrow> [] | Some l \<Rightarrow> l) k = Some v)
                 labels)
       resources"

definition FilterByLabel :: "VersionedApplicationSpec \<Rightarrow> Resource list \<Rightarrow> Resource list" where
  "FilterByLabel spec resources =
     (let labels = RequiredLabels spec
      in if length labels > 0 then WithLabels resources labels else resources)"

text \<open>
  \<open>manifestRenderer.ComputeResourcesForApplication\<close> (lines 24-44). The call of
  \<open>ValidateInputs\<close> gets the validator the renderer was built with. The writes of the
  template stage into the caller's parameter map and the list of acquisition calls are not
  part of the returned value and are dropped here.
\<close>

definition ComputeResourcesForApplication ::
  "env \<Rightarrow> ValuesInputs \<Rightarrow> VersionedApplicationSpec \<Rightarrow> Resource list outcome" where
  "ComputeResourcesForApplication env inputs spec =
     (case ValidateInputs inputs spec (validateDependencies env) of
        Panic p \<Rightarrow> Panic p
      | Err err \<Rightarrow> Err err
      | Ok u \<Rightarrow>
          (case fst (ExecInputValuesTemplates env inputs) of
             Panic p \<Rightarrow> Panic p
           | Err err \<Rightarrow> Err (FailedRenderValueTemplatesError err)
           | Ok inputs1 \<Rightarrow>
               (case fst (GetManifestsFromApplicationSpec env inputs1 spec) of
                  Panic p \<Rightarrow> Panic p
                | Err err \<Rightarrow> Err err
                | Ok manifests \<Rightarrow>
                    (case ApplyLayers env inputs1 manifests of
                       Inl err \<Rightarrow> Err err
                     | Inr rawResources \<Rightarrow> Ok (FilterByLabel spec rawResources)))))"

subsection \<open>Reading a values map by path\<close>

text \<open>
  The vocabulary for stating precedence. \<open>lookupPath\<close> reads the value at a path of keys.
  \<open>wellFormed\<close> says that no table repeats a key, as holds of every Go map.
  \<open>isLeaf\<close> holds of scalars and sequences. \<open>untouched path m\<close> says that \<open>m\<close> has
  no value at the path nor a scalar or sequence at a prefix of it.
\<close>

fun lookupPath :: "string list \<Rightarrow> (string \<times> yaml) list \<Rightarrow> yaml option" where
  "lookupPath [] m = None"
| "lookupPath [key] m = map_of m key"
| "lookupPath (key # rest) m =
     (case map_of m key of Some (Table t) \<Rightarrow> lookupPath rest t | _ \<Rightarrow> None)"

fun wellFormed :: "(string \<times> yaml) list \<Rightarrow> bool" where
  "wellFormed [] = True"
| "wellFormed ((key, Table t) # rest) =
     (key \<notin> set (map fst rest) \<and> wellFormed t \<and> wellFormed rest)"
| "wellFormed ((key, v) # rest) = (key \<notin> set (map fst rest) \<and> wellFormed rest)"

fun isLeaf :: "yaml \<Rightarrow> bool" where
  "isLeaf (Table t) = False"
| "isLeaf v = True"

fun untouched :: "string list \<Rightarrow> (string \<times> yaml) list \<Rightarrow> bool" where
  "untouched [] m = True"
| "untouched [key] m = (map_of m key = None)"
| "untouched (key # rest) m =
     (case map_of m key of None \<Rightarrow> True | Some (Table t) \<Rightarrow> untouched rest t | Some v \<Rightarrow> False)"

text \<open>
  The values sources of one call in merge order: the spec values, one map per layer input
  (empty when the option has no values fragment), the parameter map, the user values.
\<close>

definition layerSource ::
  "env \<Rightarrow> Flavor option \<Rightarrow> LayerInput \<Rightarrow> (string \<times> yaml) list \<Rightarrow> bool" where
  "layerSource env flavor layerInput layerValues =
     (case GetLayerOptionFromFlavor (LayerId layerInput) (OptionId layerInput) flavor of
        Inl err \<Rightarrow> False
      | Inr option \<Rightarrow>
          if HelmValues option = [] then layerValues = []
          else ConvertYamlStringToNestedMap env (HelmValues option) = Inr layerValues)"

definition serialize :: "env \<Rightarrow> (string \<times> yaml) list \<Rightarrow> string outcome" where
  "serialize env valuesMap =
     (case ConvertNestedMapToYaml env valuesMap of Inl err \<Rightarrow> Err err | Inr values \<Rightarrow> Ok values)"

subsection \<open>A concrete environment\<close>

text \<open>
  A small environment to run the operations on concrete inputs. Its template engine
  rejects the unclosed action \<open>{{\<close> at parse time, expands \<open>{{.Name}}\<close> and
  \<open>{{.InstallNamespace}}\<close>, fails on the unknown field of \<open>{{.Nope}}\<close> at execution
  time, and copies any other text. Its YAML reader knows the empty document and one-line
  documents \<open>k: v\<close> with one-character key and value.
\<close>

definition demo_tmplParse :: "string \<Rightarrow> error option" where
  "demo_tmplParse text =
     (if text = ''{{'' then Some (CollaboratorError ''unclosed action'') else None)"

definition demo_tmplExecute :: "string \<Rightarrow> ValuesInputs \<Rightarrow> error + string" where
  "demo_tmplExecute text data =
     (if text = ''{{.Name}}'' then Inr (Name data)
      else if text = ''{{.InstallNamespace}}'' then Inr (InstallNamespace data)
      else if text = ''{{.Nope}}'' then Inl (CollaboratorError ''cannot evaluate field Nope'')
      else Inr text)"

definition demo_readYaml :: "string \<Rightarrow> error + (string \<times> yaml) list" where
  "demo_readYaml text =
     (case text of
        [] \<Rightarrow> Inr []
      | [k, c, s, v] \<Rightarrow>
          if c = CHR '':'' \<and> s = CHR '' '' then Inr [([k], Scalar [v])]
          else Inl (CollaboratorError ''yaml'')
      | _ \<Rightarrow> Inl (CollaboratorError ''yaml''))"

definition demo_writeYaml :: "(string \<times> yaml) list \<Rightarrow> error + string" where
  "demo_writeYaml m =
     Inr (concat (map (\<lambda>(k, v). k @ '': '' @ (case v of Scalar s \<Rightarrow> s | _ \<Rightarrow> ''...'') @ '';'') m))"

definition demo_resources :: "Manifests \<Rightarrow> error + Resource list" where
  "demo_resources manifests =
     Inr (map (\<lambda>m. \<lparr>res_Labels = None, res_Object = m\<rparr>) manifests)"

definition demo_manifests :: "Resource list \<Rightarrow> error + Manifests" where
  "demo_manifests resources =
     Inr (map (\<lambda>r. res_Object r @
                  concat (map (\<lambda>(k, v). '' '' @ k @ ''='' @ v)
                            (case res_Labels r of None \<Rightarrow> [] | Some l \<Rightarrow> l)))
            resources)"

definition demo_env :: env where
  "demo_env =
     \<lparr>tmplParse = demo_tmplParse,
      tmplExecute = demo_tmplExecute,
      ConvertYamlStringToNestedMap = demo_readYaml,
      ConvertParamsToNestedMap = (\<lambda>params. Inr (map (\<lambda>(k, v). (k, Scalar v)) params)),
      ConvertNestedMapToYaml = demo_writeYaml,
      RenderManifests = (\<lambda>uri values name namespace kube. Inr [uri @ '' '' @ values]),
      RenderManifestsFromGithub =
        (\<lambda>ref values name namespace kube. Inr [chart_Repo ref @ '' '' @ values]),
      GetManifestsFromRemoteTar = (\<lambda>uri. Inr [uri]),
      ResourceList = demo_resources,
      ManifestsFromResources = demo_manifests,
      ApplyLayers = (\<lambda>inputs manifests. demo_resources manifests),
      validateDependencies = (\<lambda>dependencies. None)\<rparr>"

definition demo_flavor :: Flavor where
  "demo_flavor =
     \<lparr>flavor_Name = ''default'',
      CustomizationLayers =
        [\<lparr>layer_Id = ''l'', Optional = False,
          Options =
            [\<lparr>option_Id = ''a'', HelmValues = ''x: 2'', option_Parameters = [],
              ResourceDependencies = []\<rparr>,
             \<lparr>option_Id = ''b'', HelmValues = [],
              option_Parameters = [\<lparr>param_Name = ''p'', param_Required = True\<rparr>],
              ResourceDependencies = []\<rparr>]\<rparr>],
      flavor_Parameters = [\<lparr>param_Name = ''x'', param_Required = False\<rparr>]\<rparr>"

definition demo_inputs :: ValuesInputs where
  "demo_inputs =
     \<lparr>Name = ''demo'', InstallNamespace = ''app'', Flavor = Some demo_flavor,
      Layers = [\<lparr>LayerId = ''l'', OptionId = ''a''\<rparr>],
      MeshRef = \<lparr>ref_Name = ''linkerd'', ref_Namespace = ''app''\<rparr>,
      UserDefinedValues = ''x: 4'', SpecDefinedValues = ''x: 1'',
      Params = [(''x'', ''3'')]\<rparr>"

definition demo_step :: "string \<Rightarrow> string \<Rightarrow> InstallationSteps_Step" where
  "demo_step name uri = \<lparr>step_Name = name, Step = Some (Step_ManifestsArchive (Some \<lparr>Uri = uri\<rparr>))\<rparr>"

definition demo_spec :: VersionedApplicationSpec where
  "demo_spec =
     \<lparr>InstallationSpec = Some (Spec_HelmArchive (Some \<lparr>Uri = ''chart.tgz''\<rparr>)),
      spec_Parameters = [], RequiredLabels = []\<rparr>"

section \<open>Properties\<close>

lemmas demo_defs = demo_env_def demo_inputs_def demo_flavor_def demo_spec_def demo_tmplParse_def
  demo_tmplExecute_def demo_readYaml_def demo_writeYaml_def demo_resources_def demo_manifests_def
  demo_step_def

lemmas validate_defs = ValidateInputs_def GetRequiredLayerCount_def GetLayerOption_def
  buildAllParameters_def putParameter_def checkParameters_def readParam_def

subsection \<open>Layer selection\<close>

lemma selectOptionId_append:
  "selectOptionId (xs @ ys) i acc = selectOptionId ys i (selectOptionId xs i acc)"
  by (induction xs arbitrary: acc) auto

text \<open>
  C4 (amended). For every list of supplied (layer id, option id) selections and every
  declared layer id, \<open>ValidateInputs\<close> resolves the layer with the option id of the LAST
  selection in the list whose layer id matches; when no selection matches, the option id
  stays empty.
\<close>

theorem selectOptionId_last_match:
  "selectOptionId layerInputs flavorLayerId [] =
     (case find (\<lambda>layerInput. LayerId layerInput = flavorLayerId) (rev layerInputs) of
        None \<Rightarrow> []
      | Some layerInput \<Rightarrow> OptionId layerInput)"
proof (induction layerInputs rule: rev_induct)
  case Nil
  show ?case by simp
next
  case (snoc x xs)
  then show ?case by (simp add: selectOptionId_append)
qed

text \<open>
  C4 as stated fails. Two selections for layer \<open>l\<close>, option \<open>a\<close> first and option \<open>b\<close>
  second: the loop ends with \<open>b\<close>, and validation reports the required parameter that
  only option \<open>b\<close> declares, while the first selection alone validates.
\<close>

theorem first_match_counterexample:
  "selectOptionId [\<lparr>LayerId = ''l'', OptionId = ''a''\<rparr>, \<lparr>LayerId = ''l'', OptionId = ''b''\<rparr>]
     ''l'' [] = ''b'' \<and>
   ValidateInputs
     (demo_inputs\<lparr>Layers := [\<lparr>LayerId = ''l'', OptionId = ''a''\<rparr>,
                              \<lparr>LayerId = ''l'', OptionId = ''b''\<rparr>],
                   Params := []\<rparr>)
     demo_spec (\<lambda>dependencies. None) = Err (MissingInputForRequireParam ''p'') \<and>
   ValidateInputs
     (demo_inputs\<lparr>Layers := [\<lparr>LayerId = ''l'', OptionId = ''a''\<rparr>], Params := []\<rparr>)
     demo_spec (\<lambda>dependencies. None) = Ok ()"
  by (simp add: demo_defs validate_defs)

subsection \<open>Parameter checks\<close>

lemma map_of_putParameters:
  "map_of (foldl putParameter m ps) name =
     (case find (\<lambda>p. param_Name p = name) (rev ps) of
        None \<Rightarrow> map_of m name
      | Some p \<Rightarrow> Some p)"
proof (induction ps rule: rev_induct)
  case Nil
  show ?case by simp
next
  case (snoc x xs)
  then show ?case by (simp add: putParameter_def update_conv')
qed

lemma foldl_options_concat:
  "foldl (\<lambda>m option. foldl putParameter m (option_Parameters option)) m opts =
   foldl putParameter m (concat (map option_Parameters opts))"
  by (induction opts arbitrary: m) simp_all

lemma buildAllParameters_foldl:
  "buildAllParameters sp fp opts =
   foldl putParameter [] (sp @ fp @ concat (map option_Parameters opts))"
  by (simp add: buildAllParameters_def foldl_options_concat)

lemma map_of_buildAllParameters:
  "map_of (buildAllParameters sp fp opts) name =
     find (\<lambda>p. param_Name p = name) (rev (sp @ fp @ concat (map option_Parameters opts)))"
  unfolding buildAllParameters_foldl map_of_putParameters
  by (simp split: option.splits)

lemma distinct_putParameters:
  "distinct (map fst m) \<Longrightarrow> distinct (map fst (foldl putParameter m ps))"
  by (induction ps arbitrary: m) (simp_all add: putParameter_def distinct_update)

lemma distinct_buildAllParameters: "distinct (map fst (buildAllParameters sp fp opts))"
  unfolding buildAllParameters_foldl by (rule distinct_putParameters) simp

lemma names_buildAllParameters:
  assumes "map_of (buildAllParameters sp fp opts) name = Some p"
  shows "param_Name p = name"
  using assms unfolding map_of_buildAllParameters by (auto simp: find_Some_iff)

text \<open>
  The two loops of \<open>checkParameters\<close>, whatever the order in which a map with distinct
  keys is visited: the first loop decides before the second is entered.
\<close>

lemma checkParameters_cases:
  assumes d: "distinct (map fst ns)"
    and n: "\<And>name p. map_of ns name = Some p \<Longrightarrow> param_Name p = name"
  shows "((\<exists>name p. map_of ns name = Some p \<and> param_Required p \<and> readParam params name = []) \<longrightarrow>
            (\<exists>name p. map_of ns name = Some p \<and> param_Required p \<and> readParam params name = [] \<and>
               checkParameters ns params = Err (MissingInputForRequireParam name)))
       \<and> (\<not> (\<exists>name p. map_of ns name = Some p \<and> param_Required p \<and> readParam params name = []) \<longrightarrow>
            ((\<exists>name v. map_of params name = Some v \<and> map_of ns name = None) \<longrightarrow>
               (\<exists>name v. map_of params name = Some v \<and> map_of ns name = None \<and>
                  checkParameters ns params = Err (UnrecognizedParamError name)))
          \<and> (\<not> (\<exists>name v. map_of params name = Some v \<and> map_of ns name = None) \<longrightarrow>
               checkParameters ns params = Ok ()))"
proof -
  let ?Q = "\<lambda>param. param_Required param \<and> readParam params (param_Name param) = []"
  let ?U = "\<lambda>name. map_of ns name = None"
  have mem: "\<And>p. p \<in> set (map snd ns) \<longleftrightarrow> (\<exists>name. map_of ns name = Some p)"
    using d by (force simp: map_of_eq_Some_iff)
  have memk: "\<And>k. k \<in> set (map fst params) \<longleftrightarrow> (\<exists>v. map_of params k = Some v)"
    by (metis domIff dom_map_of_conv_image_fst list.set_map not_Some_eq)
  show ?thesis
  proof (cases "find ?Q (map snd ns)")
    case (Some p)
    then have pin: "p \<in> set (map snd ns)" and q: "?Q p"
      by (auto simp: find_Some_iff)
    from pin obtain name where m: "map_of ns name = Some p" using mem by blast
    with n have nm: "param_Name p = name" by blast
    have "checkParameters ns params = Err (MissingInputForRequireParam name)"
      using Some nm by (simp add: checkParameters_def)
    with m q nm show ?thesis by blast
  next
    case None
    then have noq:
      "\<not> (\<exists>name p. map_of ns name = Some p \<and> param_Required p \<and> readParam params name = [])"
      using mem n by (fastforce simp: find_None_iff)
    show ?thesis
    proof (cases "find ?U (map fst params)")
      case (Some name)
      then have kin: "name \<in> set (map fst params)" and u: "?U name"
        by (auto simp: find_Some_iff)
      from kin obtain v where v: "map_of params name = Some v" using memk by blast
      have "checkParameters ns params = Err (UnrecognizedParamError name)"
        using None Some by (simp add: checkParameters_def)
      with noq v u show ?thesis by blast
    next
      case N2: None
      then have "\<forall>k\<in>set (map fst params). \<not> ?U k"
        unfolding find_None_iff by auto
      then have nou: "\<not> (\<exists>name v. map_of params name = Some v \<and> map_of ns name = None)"
        using memk by blast
      have "checkParameters ns params = Ok ()"
        using None N2 by (simp add: checkParameters_def)
      with noq nou show ?thesis by blast
    qed
  qed
qed

lemma ValidateInputs_reaches_parameters:
  assumes "Flavor inputs = Some flavor"
    and "\<not> length (Layers inputs) < GetRequiredLayerCount (Flavor inputs)"
    and "selectOptions (Layers inputs) (CustomizationLayers flavor) [] = Ok selectedOptions"
    and "validateOptions validate selectedOptions = None"
  shows "ValidateInputs inputs spec validate =
         checkParameters
           (buildAllParameters (spec_Parameters spec) (flavor_Parameters flavor) selectedOptions)
           (Params inputs)"
  using assms by (simp add: ValidateInputs_def)

text \<open>
  C7. Once layer selection and the dependency validator have passed, \<open>ValidateInputs\<close>
  builds one parameter namespace by overlaying the spec parameters, then the Flavor
  parameters, then the parameters of each selected option; the entry kept under a name is
  the last one declared with that name, whole. If some name of the namespace is marked
  required and its supplied value is absent or empty, the call fails with
  \<open>MissingInputForRequireParam\<close> of such a name. Otherwise, if some supplied name is not
  in the namespace, it fails with \<open>UnrecognizedParamError\<close> of such a name. Otherwise it
  succeeds. The required check comes first, and one error is returned.
\<close>

theorem ValidateInputs_parameter_checks:
  assumes fl: "Flavor inputs = Some flavor"
    and cnt: "\<not> length (Layers inputs) < GetRequiredLayerCount (Flavor inputs)"
    and sel: "selectOptions (Layers inputs) (CustomizationLayers flavor) [] = Ok selectedOptions"
    and dep: "validateOptions validate selectedOptions = None"
  shows "let allParameters =
               buildAllParameters (spec_Parameters spec) (flavor_Parameters flavor) selectedOptions;
             params = Params inputs
         in (\<forall>name. map_of allParameters name =
               find (\<lambda>p. param_Name p = name)
                 (rev (spec_Parameters spec @ flavor_Parameters flavor @
                       concat (map option_Parameters selectedOptions)))) \<and>
            ((\<exists>name. missingRequired allParameters params name) \<longrightarrow>
               (\<exists>name. missingRequired allParameters params name \<and>
                  ValidateInputs inputs spec validate = Err (MissingInputForRequireParam name))) \<and>
            (\<not> (\<exists>name. missingRequired allParameters params name) \<and>
             (\<exists>name. unrecognized allParameters params name) \<longrightarrow>
               (\<exists>name. unrecognized allParameters params name \<and>
                  ValidateInputs inputs spec validate = Err (UnrecognizedParamError name))) \<and>
            (\<not> (\<exists>name. missingRequired allParameters params name) \<and>
             \<not> (\<exists>name. unrecognized allParameters params name) \<longrightarrow>
               ValidateInputs inputs spec validate = Ok ())"
proof -
  let ?ns = "buildAllParameters (spec_Parameters spec) (flavor_Parameters flavor) selectedOptions"
  let ?ps = "Params inputs"
  have v: "ValidateInputs inputs spec validate = checkParameters ?ns ?ps"
    by (rule ValidateInputs_reaches_parameters[OF fl cnt sel dep])
  have c: "((\<exists>name p. map_of ?ns name = Some p \<and> param_Required p \<and> readParam ?ps name = []) \<longrightarrow>
            (\<exists>name p. map_of ?ns name = Some p \<and> param_Required p \<and> readParam ?ps name = [] \<and>
               checkParameters ?ns ?ps = Err (MissingInputForRequireParam name)))
       \<and> (\<not> (\<exists>name p. map_of ?ns name = Some p \<and> param_Required p \<and> readParam ?ps name = []) \<longrightarrow>
            ((\<exists>name v. map_of ?ps name = Some v \<and> map_of ?ns name = None) \<longrightarrow>
               (\<exists>name v. map_of ?ps name = Some v \<and> map_of ?ns name = None \<and>
                  checkParameters ?ns ?ps = Err (UnrecognizedParamError name)))
          \<and> (\<not> (\<exists>name v. map_of ?ps name = Some v \<and> map_of ?ns name = None) \<longrightarrow>
               checkParameters ?ns ?ps = Ok ()))"
    by (rule checkParameters_cases[OF distinct_buildAllParameters names_buildAllParameters])
  have m: "\<And>name. missingRequired ?ns ?ps name \<longleftrightarrow>
             (\<exists>p. map_of ?ns name = Some p \<and> param_Required p \<and> readParam ?ps name = [])"
    by (simp add: missingRequired_def split: option.splits)
  have u: "\<And>name. unrecognized ?ns ?ps name \<longleftrightarrow>
             (\<exists>v. map_of ?ps name = Some v) \<and> map_of ?ns name = None"
    by (simp add: unrecognized_def)
  have one: "\<forall>name. map_of ?ns name =
            find (\<lambda>p. param_Name p = name)
              (rev (spec_Parameters spec @ flavor_Parameters flavor @
                    concat (map option_Parameters selectedOptions)))"
    by (simp add: map_of_buildAllParameters)
  have two: "(\<exists>name. missingRequired ?ns ?ps name) \<longrightarrow>
            (\<exists>name. missingRequired ?ns ?ps name \<and>
               ValidateInputs inputs spec validate = Err (MissingInputForRequireParam name))"
    using c unfolding m v by blast
  have three: "\<not> (\<exists>name. missingRequired ?ns ?ps name) \<and> (\<exists>name. unrecognized ?ns ?ps name) \<longrightarrow>
            (\<exists>name. unrecognized ?ns ?ps name \<and>
               ValidateInputs inputs spec validate = Err (UnrecognizedParamError name))"
    using c unfolding m u v by blast
  have four: "\<not> (\<exists>name. missingRequired ?ns ?ps name) \<and> \<not> (\<exists>name. unrecognized ?ns ?ps name) \<longrightarrow>
            ValidateInputs inputs spec validate = Ok ()"
    using c unfolding m u v by blast
  from one two three four show ?thesis unfolding Let_def by blast
qed

theorem ValidateInputs_parameter_checks_witness:
  "Flavor (demo_inputs\<lparr>Params := [(''x'', ''3''), (''zz'', ''1'')]\<rparr>) = Some demo_flavor \<and>
   \<not> length (Layers (demo_inputs\<lparr>Params := [(''x'', ''3''), (''zz'', ''1'')]\<rparr>))
       < GetRequiredLayerCount (Flavor (demo_inputs\<lparr>Params := [(''x'', ''3''), (''zz'', ''1'')]\<rparr>)) \<and>
   selectOptions (Layers (demo_inputs\<lparr>Params := [(''x'', ''3''), (''zz'', ''1'')]\<rparr>))
     (CustomizationLayers demo_flavor) [] =
     Ok [\<lparr>option_Id = ''a'', HelmValues = ''x: 2'', option_Parameters = [],
          ResourceDependencies = []\<rparr>] \<and>
   unrecognized (buildAllParameters (spec_Parameters demo_spec) (flavor_Parameters demo_flavor)
       [\<lparr>option_Id = ''a'', HelmValues = ''x: 2'', option_Parameters = [],
          ResourceDependencies = []\<rparr>]) [(''x'', ''3''), (''zz'', ''1'')] ''zz'' \<and>
   ValidateInputs (demo_inputs\<lparr>Params := [(''x'', ''3''), (''zz'', ''1'')]\<rparr>) demo_spec
     (\<lambda>dependencies. None) = Err (UnrecognizedParamError ''zz'')"
proof -
  let ?i = "demo_inputs\<lparr>Params := [(''x'', ''3''), (''zz'', ''1'')]\<rparr>"
  let ?o = "[\<lparr>option_Id = ''a'', HelmValues = ''x: 2'', option_Parameters = [],
          ResourceDependencies = []\<rparr>]"
  let ?ns = "buildAllParameters (spec_Parameters demo_spec) (flavor_Parameters demo_flavor) ?o"
  have fl: "Flavor ?i = Some demo_flavor" by (simp add: demo_inputs_def)
  have cnt: "\<not> length (Layers ?i) < GetRequiredLayerCount (Flavor ?i)"
    by (simp add: demo_inputs_def demo_flavor_def GetRequiredLayerCount_def)
  have sel: "selectOptions (Layers ?i) (CustomizationLayers demo_flavor) [] = Ok ?o"
    by (simp add: demo_inputs_def demo_flavor_def GetLayerOption_def)
  have dep: "validateOptions (\<lambda>dependencies. None) ?o = None" by simp
  have nsv: "?ns = [(''x'', \<lparr>param_Name = ''x'', param_Required = False\<rparr>)]"
    by (simp add: buildAllParameters_def putParameter_def demo_spec_def demo_flavor_def)
  have nomiss: "\<not> (\<exists>name. missingRequired ?ns (Params ?i) name)"
    by (simp add: nsv missingRequired_def)
  have unk: "unrecognized ?ns (Params ?i) ''zz''"
    by (simp add: nsv unrecognized_def demo_inputs_def)
  have only: "\<And>name. unrecognized ?ns (Params ?i) name \<Longrightarrow> name = ''zz''"
    by (simp add: nsv unrecognized_def demo_inputs_def split: if_splits)
  from ValidateInputs_parameter_checks[OF fl cnt sel dep, of demo_spec] nomiss unk
  obtain name where "unrecognized ?ns (Params ?i) name"
    and "ValidateInputs ?i demo_spec (\<lambda>dependencies. None) = Err (UnrecognizedParamError name)"
    unfolding Let_def by blast
  with only have "ValidateInputs ?i demo_spec (\<lambda>dependencies. None) = Err (UnrecognizedParamError ''zz'')"
    by blast
  with fl cnt sel unk show ?thesis by (simp add: demo_inputs_def)
qed

subsection \<open>Template expansion\<close>

lemma execParams_frame:
  assumes "execParams env inputs ps = (Ok out, m)"
    and "set (map fst ps) \<subseteq> set (map fst (Params inputs))"
  shows "\<exists>params. out = inputs\<lparr>Params := params\<rparr> \<and> map fst params = map fst (Params inputs)"
  using assms
proof (induction ps arbitrary: inputs)
  case Nil
  then have "out = inputs\<lparr>Params := Params inputs\<rparr>" by simp
  then show ?case by blast
next
  case (Cons a ps)
  obtain k v where a: "a = (k, v)" by (cases a)
  from Cons.prems(1) a obtain expanded where
    ex: "tmplExecute env v inputs = Inr expanded"
    and rec: "execParams env (inputs\<lparr>Params := AList.update k expanded (Params inputs)\<rparr>) ps = (Ok out, m)"
    by (auto split: option.splits sum.splits)
  let ?i = "inputs\<lparr>Params := AList.update k expanded (Params inputs)\<rparr>"
  have kin: "k \<in> set (map fst (Params inputs))" using Cons.prems(2) a by simp
  then have keys: "map fst (Params ?i) = map fst (Params inputs)"
    by (simp add: update_keys)
  then have "set (map fst ps) \<subseteq> set (map fst (Params ?i))"
    using Cons.prems(2) by simp
  from Cons.IH[OF rec this] obtain params where
    "out = ?i\<lparr>Params := params\<rparr>" "map fst params = map fst (Params ?i)" by blast
  then have "out = inputs\<lparr>Params := params\<rparr> \<and> map fst params = map fst (Params inputs)"
    using keys by simp
  then show ?case by blast
qed

text \<open>
  C10. When \<open>ExecInputValuesTemplates\<close> succeeds, the returned bundle is the input bundle
  with new spec-defined values, user-defined values and parameter values: the name, the
  install namespace, the Flavor, the layer selections and the mesh reference are
  unchanged, and so are the parameter names.
\<close>

theorem ExecInputValuesTemplates_frame:
  assumes "fst (ExecInputValuesTemplates env inputs) = Ok out"
  shows "\<exists>specText userText params.
           out = inputs\<lparr>UserDefinedValues := userText, SpecDefinedValues := specText,
                         Params := params\<rparr> \<and>
           map fst params = map fst (Params inputs) \<and>
           Name out = Name inputs \<and> InstallNamespace out = InstallNamespace inputs \<and>
           Flavor out = Flavor inputs \<and> Layers out = Layers inputs \<and>
           MeshRef out = MeshRef inputs"
proof -
  from assms obtain specText userText where
    rec: "fst (execParams env (inputs\<lparr>SpecDefinedValues := specText, UserDefinedValues := userText\<rparr>)
            (Params inputs)) = Ok out"
    by (auto simp: ExecInputValuesTemplates_def Let_def split: option.splits sum.splits)
  let ?i = "inputs\<lparr>SpecDefinedValues := specText, UserDefinedValues := userText\<rparr>"
  obtain m where "execParams env ?i (Params inputs) = (Ok out, m)"
    using rec by (cases "execParams env ?i (Params inputs)") simp
  from execParams_frame[OF this] obtain params where
    "out = ?i\<lparr>Params := params\<rparr>" "map fst params = map fst (Params inputs)" by auto
  then have "out = inputs\<lparr>UserDefinedValues := userText, SpecDefinedValues := specText,
                         Params := params\<rparr> \<and>
           map fst params = map fst (Params inputs) \<and>
           Name out = Name inputs \<and> InstallNamespace out = InstallNamespace inputs \<and>
           Flavor out = Flavor inputs \<and> Layers out = Layers inputs \<and>
           MeshRef out = MeshRef inputs" by simp
  then show ?thesis by blast
qed

theorem ExecInputValuesTemplates_frame_witness:
  "fst (ExecInputValuesTemplates demo_env (demo_inputs\<lparr>Params := [(''x'', ''{{.Name}}'')]\<rparr>))
     = Ok (demo_inputs\<lparr>Params := [(''x'', ''demo'')]\<rparr>) \<and>
   map fst (Params (demo_inputs\<lparr>Params := [(''x'', ''demo'')]\<rparr>)) = [''x''] \<and>
   Name (demo_inputs\<lparr>Params := [(''x'', ''demo'')]\<rparr>) = ''demo''"
proof -
  have h: "fst (ExecInputValuesTemplates demo_env (demo_inputs\<lparr>Params := [(''x'', ''{{.Name}}'')]\<rparr>))
     = Ok (demo_inputs\<lparr>Params := [(''x'', ''demo'')]\<rparr>)"
    by (simp add: ExecInputValuesTemplates_def demo_defs)
  from ExecInputValuesTemplates_frame[OF h] h show ?thesis
    by (auto simp: demo_inputs_def)
qed

text \<open>
  C3 fails on the code. Two parameters, \<open>a\<close> with a template that expands and \<open>b\<close>
  with one that fails at execution, visited in this order: the call returns the error, and
  the shared parameter map holds the expanded value of \<open>a\<close> next to the unexpanded
  value of \<open>b\<close>.
\<close>

theorem ExecInputValuesTemplates_partial_write:
  "ExecInputValuesTemplates demo_env
     (demo_inputs\<lparr>Params := [(''a'', ''{{.Name}}''), (''b'', ''{{.Nope}}'')]\<rparr>) =
   (Err (CollaboratorError ''cannot evaluate field Nope''),
    [(''a'', ''demo''), (''b'', ''{{.Nope}}'')])"
  by (simp add: ExecInputValuesTemplates_def demo_defs)

text \<open>
  C2 fails on the code. When validation passes and the template engine rejects the
  spec-defined values text at parse time, \<open>template.Must\<close> panics: the renderer returns no
  error value.
\<close>

theorem malformed_template_panics:
  assumes "ValidateInputs inputs spec (validateDependencies env) = Ok ()"
    and "tmplParse env (SpecDefinedValues inputs) = Some err"
  shows "ComputeResourcesForApplication env inputs spec = Panic (TemplateMust err)"
  using assms by (simp add: ComputeResourcesForApplication_def ExecInputValuesTemplates_def)

theorem malformed_template_panics_witness:
  "ValidateInputs (demo_inputs\<lparr>SpecDefinedValues := ''{{''\<rparr>) demo_spec
     (validateDependencies demo_env) = Ok () \<and>
   tmplParse demo_env (SpecDefinedValues (demo_inputs\<lparr>SpecDefinedValues := ''{{''\<rparr>)) =
     Some (CollaboratorError ''unclosed action'') \<and>
   ComputeResourcesForApplication demo_env (demo_inputs\<lparr>SpecDefinedValues := ''{{''\<rparr>) demo_spec =
     Panic (TemplateMust (CollaboratorError ''unclosed action''))"
proof -
  have v: "ValidateInputs (demo_inputs\<lparr>SpecDefinedValues := ''{{''\<rparr>) demo_spec
     (validateDependencies demo_env) = Ok ()"
    by (simp add: demo_defs ValidateInputs_def GetRequiredLayerCount_def
      GetLayerOption_def buildAllParameters_def putParameter_def checkParameters_def readParam_def)
  have p: "tmplParse demo_env (SpecDefinedValues (demo_inputs\<lparr>SpecDefinedValues := ''{{''\<rparr>)) =
     Some (CollaboratorError ''unclosed action'')"
    by (simp add: demo_env_def demo_tmplParse_def)
  from malformed_template_panics[OF v p] v p show ?thesis by simp
qed

subsection \<open>Dispatch on the installation source\<close>

text \<open>
  C8. A spec whose installation source is unset gets \<open>MissingInstallSpecError\<close> from
  \<open>GetManifestsFromApplicationSpec\<close>, and a step whose source is unset gets it from
  \<open>getManifestsFromInstallationStep\<close>; neither makes an acquisition call. A step source
  is one of three variants (chart reference, packaged archive, raw-manifest archive);
  there is no variant for nested steps.
\<close>

theorem unset_installation_source:
  "GetManifestsFromApplicationSpec env inputs (spec\<lparr>InstallationSpec := None\<rparr>) =
     (Err MissingInstallSpecError, []) \<and>
   getManifestsFromInstallationStep env inputs (step\<lparr>Step := None\<rparr>) =
     (Err MissingInstallSpecError, []) \<and>
   getManifestsFromInstallationStep env inputs (step\<lparr>Step := Some (Step_GithubChart g)\<rparr>) =
     getManifestsFromGithub env g inputs \<and>
   getManifestsFromInstallationStep env inputs (step\<lparr>Step := Some (Step_HelmArchive h)\<rparr>) =
     getManifestsFromHelm env h inputs \<and>
   getManifestsFromInstallationStep env inputs (step\<lparr>Step := Some (Step_ManifestsArchive a)\<rparr>) =
     getManifestsFromArchive env a inputs \<and>
   (Step step = None \<or> (\<exists>g. Step step = Some (Step_GithubChart g)) \<or>
    (\<exists>h. Step step = Some (Step_HelmArchive h)) \<or>
    (\<exists>a. Step step = Some (Step_ManifestsArchive a)))"
proof -
  have "Step step = None \<or> (\<exists>g. Step step = Some (Step_GithubChart g)) \<or>
    (\<exists>h. Step step = Some (Step_HelmArchive h)) \<or>
    (\<exists>a. Step step = Some (Step_ManifestsArchive a))"
  proof (cases "Step step")
    case None
    then show ?thesis by simp
  next
    case (Some source)
    then show ?thesis by (cases source) simp_all
  qed
  then show ?thesis
    by (simp add: GetManifestsFromApplicationSpec_def getManifestsFromInstallationStep_def)
qed

subsection \<open>Installation steps\<close>

lemma find_eq_name:
  "find (\<lambda>name. n = name) names = (if n \<in> set names then Some n else None)"
  by (induction names) auto

lemma stepsLoop_step:
  assumes "stepSucceeds env inputs step resources labelled calls"
    and "step_Name step \<notin> set names"
  shows "stepsLoop env inputs (step # rest) names combined =
         (case stepsLoop env inputs rest (names @ [step_Name step]) (combined @ labelled) of
            (result, laterCalls) \<Rightarrow> (result, calls @ laterCalls))"
  using assms
  by (auto simp: stepSucceeds_def find_eq_name split: prod.splits outcome.splits)

text \<open>Steps that all go through: the loop returns their labelled manifests in step order.\<close>

lemma stepsLoop_all:
  assumes "\<forall>step\<in>set steps. stepSucceeds env inputs step (rs step) (out step) (cs step)"
    and "distinct (map step_Name steps)"
    and "set (map step_Name steps) \<inter> set names = {}"
  shows "stepsLoop env inputs steps names combined =
         (Ok (combined @ concat (map out steps)), concat (map cs steps))"
  using assms
proof (induction steps arbitrary: names combined)
  case Nil
  show ?case by simp
next
  case (Cons step steps)
  have s: "stepSucceeds env inputs step (rs step) (out step) (cs step)"
    using Cons.prems(1) by simp
  have n: "step_Name step \<notin> set names" using Cons.prems(3) by auto
  have rest: "stepsLoop env inputs steps (names @ [step_Name step]) (combined @ out step) =
         (Ok ((combined @ out step) @ concat (map out steps)), concat (map cs steps))"
  proof (rule Cons.IH)
    show "\<forall>step\<in>set steps. stepSucceeds env inputs step (rs step) (out step) (cs step)"
      using Cons.prems(1) by simp
    show "distinct (map step_Name steps)" using Cons.prems(2) by simp
    show "set (map step_Name steps) \<inter> set (names @ [step_Name step]) = {}"
      using Cons.prems(2,3) by auto
  qed
  show ?case
    unfolding stepsLoop_step[OF s n] rest by simp
qed

text \<open>
  Steps that go through, followed by any step: the loop reaches that step having made
  exactly the calls of the earlier steps, and stops there if its name is empty or seen.
\<close>

lemma stepsLoop_stops:
  assumes "\<forall>step\<in>set pre. stepSucceeds env inputs step (rs step) (out step) (cs step)"
    and "distinct (map step_Name pre)"
    and "set (map step_Name pre) \<inter> set names = {}"
  shows "stepsLoop env inputs (pre @ s # post) names combined =
         ((if step_Name s = [] then Err UnnamedStepError
           else if step_Name s \<in> set names \<union> set (map step_Name pre)
                then Err (DuplicateStepNameError (step_Name s))
                else fst (stepsLoop env inputs (s # post) (names @ map step_Name pre)
                            (combined @ concat (map out pre)))),
          concat (map cs pre) @
          snd (stepsLoop env inputs (s # post) (names @ map step_Name pre)
                 (combined @ concat (map out pre))))"
  using assms
proof (induction pre arbitrary: names combined)
  case Nil
  show ?case by (auto simp: find_eq_name split: prod.splits outcome.splits sum.splits)
next
  case (Cons step pre)
  have st: "stepSucceeds env inputs step (rs step) (out step) (cs step)"
    using Cons.prems(1) by simp
  have n: "step_Name step \<notin> set names" using Cons.prems(3) by auto
  have rest: "stepsLoop env inputs (pre @ s # post) (names @ [step_Name step]) (combined @ out step) =
         ((if step_Name s = [] then Err UnnamedStepError
           else if step_Name s \<in> set (names @ [step_Name step]) \<union> set (map step_Name pre)
                then Err (DuplicateStepNameError (step_Name s))
                else fst (stepsLoop env inputs (s # post) ((names @ [step_Name step]) @ map step_Name pre)
                            ((combined @ out step) @ concat (map out pre)))),
          concat (map cs pre) @
          snd (stepsLoop env inputs (s # post) ((names @ [step_Name step]) @ map step_Name pre)
                 ((combined @ out step) @ concat (map out pre))))"
  proof (rule Cons.IH)
    show "\<forall>step\<in>set pre. stepSucceeds env inputs step (rs step) (out step) (cs step)"
      using Cons.prems(1) by simp
    show "distinct (map step_Name pre)" using Cons.prems(2) by simp
    show "set (map step_Name pre) \<inter> set (names @ [step_Name step]) = {}"
      using Cons.prems(2,3) by auto
  qed
  have "stepsLoop env inputs ((step # pre) @ s # post) names combined =
        (case stepsLoop env inputs (pre @ s # post) (names @ [step_Name step]) (combined @ out step) of
            (result, laterCalls) \<Rightarrow> (result, cs step @ laterCalls))"
    using stepsLoop_step[OF st n] by simp
  then show ?case unfolding rest by auto
qed

lemma stepSucceeds_converted:
  assumes "stepSucceeds env inputs step resources labelled calls"
  shows "ManifestsFromResources env (map (labelResource (step_Name step)) resources) =
         Inr labelled"
proof (cases "getManifestsFromInstallationStep env inputs step")
  case (Pair result made)
  with assms show ?thesis by (cases result) (simp_all add: stepSucceeds_def)
qed

lemma labelResource_label:
  "\<exists>labels. res_Labels (labelResource stepName r) = Some labels \<and>
            map_of labels InstallationStepLabel = Some stepName \<and>
            (\<forall>k. k \<noteq> InstallationStepLabel \<longrightarrow>
                 map_of labels k = map_of (case res_Labels r of None \<Rightarrow> [] | Some l \<Rightarrow> l) k)"
  by (simp add: labelResource_def update_conv')

lemma labelResource_object: "res_Object (labelResource stepName r) = res_Object r"
  by (simp add: labelResource_def)

text \<open>
  C5 (amended). An empty step list fails at once with no acquisition call. Names are
  checked step by step, interleaved with acquisition: when the steps before some step
  \<open>s\<close> are named, pairwise distinct and all go through, and \<open>s\<close> has an empty name, the
  call fails with the unnamed-step error; when \<open>s\<close> repeats the name of an earlier step
  (compared as exact strings), the call fails with the duplicate-step-name error. In both
  cases the calls made are exactly those of the steps before \<open>s\<close>: nothing is acquired
  for \<open>s\<close> or for a later step, and the earlier steps have been acquired already.
\<close>

theorem getManifestsFromSteps_stops_at_duplicate:
  assumes "\<forall>step\<in>set pre. stepSucceeds env inputs step (rs step) (out step) (cs step)"
    and "distinct (map step_Name pre)"
  shows "getManifestsFromSteps env (Some \<lparr>Steps = []\<rparr>) inputs =
           (Err NoInstallationStepError, []) \<and>
         (step_Name s = [] \<longrightarrow>
            getManifestsFromSteps env (Some \<lparr>Steps = pre @ s # post\<rparr>) inputs =
              (Err UnnamedStepError, concat (map cs pre))) \<and>
         (step_Name s \<noteq> [] \<and> step_Name s \<in> set (map step_Name pre) \<longrightarrow>
            getManifestsFromSteps env (Some \<lparr>Steps = pre @ s # post\<rparr>) inputs =
              (Err (DuplicateStepNameError (step_Name s)), concat (map cs pre)))"
proof -
  have loop: "stepsLoop env inputs (pre @ s # post) [] [] =
         ((if step_Name s = [] then Err UnnamedStepError
           else if step_Name s \<in> set [] \<union> set (map step_Name pre)
                then Err (DuplicateStepNameError (step_Name s))
                else fst (stepsLoop env inputs (s # post) ([] @ map step_Name pre)
                            ([] @ concat (map out pre)))),
          concat (map cs pre) @
          snd (stepsLoop env inputs (s # post) ([] @ map step_Name pre)
                 ([] @ concat (map out pre))))"
    by (rule stepsLoop_stops) (use assms in simp_all)
  have unnamed: "step_Name s = [] \<Longrightarrow>
        snd (stepsLoop env inputs (s # post) (map step_Name pre) (concat (map out pre))) = []"
    by simp
  have dup: "step_Name s \<noteq> [] \<Longrightarrow> step_Name s \<in> set (map step_Name pre) \<Longrightarrow>
        snd (stepsLoop env inputs (s # post) (map step_Name pre) (concat (map out pre))) = []"
    by (simp add: find_eq_name)
  show ?thesis
    using loop unnamed dup by (simp add: getManifestsFromSteps_def)
qed

theorem getManifestsFromSteps_stops_at_duplicate_witness:
  "stepSucceeds demo_env demo_inputs (demo_step ''a'' ''u1'')
     [\<lparr>res_Labels = None, res_Object = ''u1''\<rparr>]
     [''u1 service-mesh-hub.solo.io/installation_step=a'']
     [Call_GetManifestsFromRemoteTar ''u1''] \<and>
   getManifestsFromSteps demo_env
     (Some \<lparr>Steps = [demo_step ''a'' ''u1'', demo_step ''a'' ''u2'', demo_step ''b'' ''u3'']\<rparr>)
     demo_inputs =
     (Err (DuplicateStepNameError ''a''), [Call_GetManifestsFromRemoteTar ''u1''])"
proof -
  have ok: "stepSucceeds demo_env demo_inputs (demo_step ''a'' ''u1'')
     [\<lparr>res_Labels = None, res_Object = ''u1''\<rparr>]
     [''u1 service-mesh-hub.solo.io/installation_step=a'']
     [Call_GetManifestsFromRemoteTar ''u1'']"
    by (simp add: stepSucceeds_def getManifestsFromInstallationStep_def
        getManifestsFromArchive_def GetUri_def labelResource_def InstallationStepLabel_def
        demo_defs)
  have pre: "\<forall>step\<in>set [demo_step ''a'' ''u1''].
          stepSucceeds demo_env demo_inputs step
            ((\<lambda>step. [\<lparr>res_Labels = None, res_Object = ''u1''\<rparr>]) step)
            ((\<lambda>step. [''u1 service-mesh-hub.solo.io/installation_step=a'']) step)
            ((\<lambda>step. [Call_GetManifestsFromRemoteTar ''u1'']) step)"
    using ok by simp
  have d: "distinct (map step_Name [demo_step ''a'' ''u1''])" by simp
  from getManifestsFromSteps_stops_at_duplicate[OF pre d,
      of "demo_step ''a'' ''u2''" "[demo_step ''b'' ''u3'']"] ok
  show ?thesis by (simp add: demo_step_def)
qed

text \<open>
  C5 as stated fails. Two steps named \<open>a\<close>: the duplicate is reported after the archive
  of the first step has been fetched; and when that fetch fails, the call returns the
  fetch error, not the duplicate-step-name error.
\<close>

theorem duplicate_before_acquisition_counterexample:
  "getManifestsFromSteps demo_env
     (Some \<lparr>Steps = [demo_step ''a'' ''u1'', demo_step ''a'' ''u2'']\<rparr>) demo_inputs =
     (Err (DuplicateStepNameError ''a''), [Call_GetManifestsFromRemoteTar ''u1'']) \<and>
   getManifestsFromSteps
     (demo_env\<lparr>GetManifestsFromRemoteTar := (\<lambda>uri. Inl (CollaboratorError ''not found''))\<rparr>)
     (Some \<lparr>Steps = [demo_step ''a'' ''u1'', demo_step ''a'' ''u2'']\<rparr>) demo_inputs =
     (Err (FailedToRenderManifestsError (CollaboratorError ''not found'')),
      [Call_GetManifestsFromRemoteTar ''u1''])"
  by (simp add: getManifestsFromSteps_def getManifestsFromInstallationStep_def
        getManifestsFromArchive_def GetUri_def labelResource_def InstallationStepLabel_def
        demo_defs)

text \<open>
  C6. When the steps are named, pairwise distinct, and all go through, the combined
  result is the concatenation, in step order, of each step's manifests as converted from
  its labelled resources. The labelled resources of a step are its resources in their
  original order, each with its object unchanged, its labels present (created when the
  resource had none), the step label equal to the step's name, and every other label as
  before.
\<close>

theorem getManifestsFromSteps_labels_in_order:
  assumes "steps \<noteq> []"
    and "\<forall>step\<in>set steps. stepSucceeds env inputs step (rs step) (out step) (cs step)"
    and "distinct (map step_Name steps)"
  shows "getManifestsFromSteps env (Some \<lparr>Steps = steps\<rparr>) inputs =
           (Ok (concat (map out steps)), concat (map cs steps)) \<and>
         (\<forall>step\<in>set steps.
            ManifestsFromResources env (map (labelResource (step_Name step)) (rs step)) =
              Inr (out step) \<and>
            map res_Object (map (labelResource (step_Name step)) (rs step)) =
              map res_Object (rs step) \<and>
            (\<forall>r\<in>set (rs step).
               \<exists>labels. res_Labels (labelResource (step_Name step) r) = Some labels \<and>
                 map_of labels InstallationStepLabel = Some (step_Name step) \<and>
                 (\<forall>k. k \<noteq> InstallationStepLabel \<longrightarrow>
                    map_of labels k =
                      map_of (case res_Labels r of None \<Rightarrow> [] | Some l \<Rightarrow> l) k)))"
proof -
  have "stepsLoop env inputs steps [] [] =
          (Ok ([] @ concat (map out steps)), concat (map cs steps))"
    by (rule stepsLoop_all) (use assms in simp_all)
  then have run: "getManifestsFromSteps env (Some \<lparr>Steps = steps\<rparr>) inputs =
           (Ok (concat (map out steps)), concat (map cs steps))"
    using assms(1) by (simp add: getManifestsFromSteps_def)
  have conv: "\<forall>step\<in>set steps.
      ManifestsFromResources env (map (labelResource (step_Name step)) (rs step)) = Inr (out step)"
    using assms(2) stepSucceeds_converted by blast
  have obj: "\<forall>step\<in>set steps.
      map res_Object (map (labelResource (step_Name step)) (rs step)) = map res_Object (rs step)"
    by (simp add: labelResource_object)
  from run conv obj labelResource_label show ?thesis by blast
qed

theorem getManifestsFromSteps_labels_in_order_witness:
  "getManifestsFromSteps demo_env
     (Some \<lparr>Steps = [demo_step ''a'' ''u1'', demo_step ''A'' ''u2'']\<rparr>) demo_inputs =
     (Ok [''u1 service-mesh-hub.solo.io/installation_step=a'',
          ''u2 service-mesh-hub.solo.io/installation_step=A''],
      [Call_GetManifestsFromRemoteTar ''u1'', Call_GetManifestsFromRemoteTar ''u2''])"
proof -
  let ?rs = "\<lambda>step. [\<lparr>res_Labels = None, res_Object = GetUri (case Step step of Some (Step_ManifestsArchive l) \<Rightarrow> l | _ \<Rightarrow> None)\<rparr>]"
  let ?out = "\<lambda>step. [GetUri (case Step step of Some (Step_ManifestsArchive l) \<Rightarrow> l | _ \<Rightarrow> None) @ '' service-mesh-hub.solo.io/installation_step='' @ step_Name step]"
  let ?cs = "\<lambda>step. [Call_GetManifestsFromRemoteTar (GetUri (case Step step of Some (Step_ManifestsArchive l) \<Rightarrow> l | _ \<Rightarrow> None))]"
  let ?steps = "[demo_step ''a'' ''u1'', demo_step ''A'' ''u2'']"
  have ne: "?steps \<noteq> []" by simp
  have ok: "\<forall>step\<in>set ?steps. stepSucceeds demo_env demo_inputs step (?rs step) (?out step) (?cs step)"
    by (simp add: stepSucceeds_def getManifestsFromInstallationStep_def
        getManifestsFromArchive_def GetUri_def labelResource_def InstallationStepLabel_def
        demo_defs)
  have d: "distinct (map step_Name ?steps)" by (simp add: demo_step_def)
  from getManifestsFromSteps_labels_in_order[OF ne ok d]
  show ?thesis by (simp add: demo_step_def GetUri_def)
qed

subsection \<open>The renderer\<close>

lemma demo_validate:
  "ValidateInputs demo_inputs demo_spec (validateDependencies env) = Ok () \<longleftrightarrow> validateDependencies env [] = None"
  by (simp add: demo_defs validate_defs split: option.splits)

lemma demo_exec: "ExecInputValuesTemplates demo_env demo_inputs = (Ok demo_inputs, [(''x'', ''3'')])"
  by (simp add: ExecInputValuesTemplates_def demo_defs)

lemma demo_values: "ComputeValueOverrides demo_env demo_inputs = Ok ''x: 4;''"
  by (simp add: ComputeValueOverrides_def GetLayerOptionFromFlavor_def GetLayerOption_def demo_defs)

lemma demo_acquire:
  "GetManifestsFromApplicationSpec demo_env demo_inputs demo_spec =
     (Ok [''chart.tgz x: 4;''], [Call_RenderManifests ''chart.tgz'' ''x: 4;'' ''demo'' ''app'' []])"
  using demo_values
  by (simp add: GetManifestsFromApplicationSpec_def getManifestsFromHelm_def demo_env_def demo_spec_def demo_inputs_def)

text \<open>
  C9 (amended). \<open>ComputeResourcesForApplication\<close> is a pipeline of five stages: validate,
  expand templates, acquire manifests, apply layers, filter by label. It returns the error
  of the first stage that fails (the error of the template stage wrapped in
  \<open>FailedRenderValueTemplatesError\<close>, the others as they are), and on success the
  label-filtered resources that \<open>ApplyLayers\<close> made from the acquired manifests.
\<close>

theorem ComputeResourcesForApplication_stages:
  "(ValidateInputs inputs spec (validateDependencies env) = Err e1 \<longrightarrow>
      ComputeResourcesForApplication env inputs spec = Err e1) \<and>
   (ValidateInputs inputs spec (validateDependencies env) = Ok () \<longrightarrow>
      (fst (ExecInputValuesTemplates env inputs) = Err e2 \<longrightarrow>
         ComputeResourcesForApplication env inputs spec =
           Err (FailedRenderValueTemplatesError e2)) \<and>
      (fst (ExecInputValuesTemplates env inputs) = Ok inputs1 \<longrightarrow>
         (fst (GetManifestsFromApplicationSpec env inputs1 spec) = Err e3 \<longrightarrow>
            ComputeResourcesForApplication env inputs spec = Err e3) \<and>
         (fst (GetManifestsFromApplicationSpec env inputs1 spec) = Ok manifests \<longrightarrow>
            (ApplyLayers env inputs1 manifests = Inl e4 \<longrightarrow>
               ComputeResourcesForApplication env inputs spec = Err e4) \<and>
            (ApplyLayers env inputs1 manifests = Inr rawResources \<longrightarrow>
               ComputeResourcesForApplication env inputs spec =
                 Ok (FilterByLabel spec rawResources)))))"
  by (simp add: ComputeResourcesForApplication_def)

theorem ComputeResourcesForApplication_stages_witness:
  "ValidateInputs demo_inputs demo_spec (validateDependencies demo_env) = Ok () \<and>
   fst (ExecInputValuesTemplates demo_env demo_inputs) = Ok demo_inputs \<and>
   fst (GetManifestsFromApplicationSpec demo_env demo_inputs demo_spec) =
     Ok [''chart.tgz x: 4;''] \<and>
   ApplyLayers demo_env demo_inputs [''chart.tgz x: 4;''] =
     Inr [\<lparr>res_Labels = None, res_Object = ''chart.tgz x: 4;''\<rparr>] \<and>
   ComputeResourcesForApplication demo_env demo_inputs demo_spec =
     Ok (FilterByLabel demo_spec [\<lparr>res_Labels = None, res_Object = ''chart.tgz x: 4;''\<rparr>])"
proof -
  have v: "ValidateInputs demo_inputs demo_spec (validateDependencies demo_env) = Ok ()"
    by (simp add: demo_validate) (simp add: demo_env_def)
  have e: "fst (ExecInputValuesTemplates demo_env demo_inputs) = Ok demo_inputs"
    by (simp add: demo_exec)
  have g: "fst (GetManifestsFromApplicationSpec demo_env demo_inputs demo_spec) =
     Ok [''chart.tgz x: 4;'']"
    by (simp add: demo_acquire)
  have a: "ApplyLayers demo_env demo_inputs [''chart.tgz x: 4;''] =
     Inr [\<lparr>res_Labels = None, res_Object = ''chart.tgz x: 4;''\<rparr>]"
    by (simp add: demo_env_def demo_resources_def)
  from ComputeResourcesForApplication_stages[of demo_inputs demo_spec demo_env _ _ demo_inputs
      _ "[''chart.tgz x: 4;'']" _ "[\<lparr>res_Labels = None, res_Object = ''chart.tgz x: 4;''\<rparr>]"]
    v e g a
  show ?thesis by simp
qed

text \<open>
  C9 as stated fails. With a layer application that fails, validation, template expansion
  and acquisition all succeed and the renderer still returns an error; with one that
  drops every resource, the renderer returns the empty set although a manifest was
  acquired and no label is required.
\<close>

theorem four_stage_pipeline_counterexample:
  "ValidateInputs demo_inputs demo_spec
     (validateDependencies
        (demo_env\<lparr>ApplyLayers := (\<lambda>inputs manifests. Inl (CollaboratorError ''layers''))\<rparr>)) =
     Ok () \<and>
   fst (ExecInputValuesTemplates
          (demo_env\<lparr>ApplyLayers := (\<lambda>inputs manifests. Inl (CollaboratorError ''layers''))\<rparr>)
          demo_inputs) = Ok demo_inputs \<and>
   fst (GetManifestsFromApplicationSpec
          (demo_env\<lparr>ApplyLayers := (\<lambda>inputs manifests. Inl (CollaboratorError ''layers''))\<rparr>)
          demo_inputs demo_spec) = Ok [''chart.tgz x: 4;''] \<and>
   ComputeResourcesForApplication
     (demo_env\<lparr>ApplyLayers := (\<lambda>inputs manifests. Inl (CollaboratorError ''layers''))\<rparr>)
     demo_inputs demo_spec = Err (CollaboratorError ''layers'') \<and>
   ComputeResourcesForApplication
     (demo_env\<lparr>ApplyLayers := (\<lambda>inputs manifests. Inr [])\<rparr>) demo_inputs demo_spec = Ok []"
proof -
  have v: "\<And>f. ValidateInputs demo_inputs demo_spec
              (validateDependencies (demo_env\<lparr>ApplyLayers := f\<rparr>)) = Ok ()"
    by (simp add: demo_validate) (simp add: demo_env_def)
  have v0: "ValidateInputs demo_inputs demo_spec (validateDependencies demo_env) = Ok ()"
    by (simp add: demo_validate) (simp add: demo_env_def)
  have e: "\<And>f. ExecInputValuesTemplates (demo_env\<lparr>ApplyLayers := f\<rparr>) demo_inputs =
             (Ok demo_inputs, [(''x'', ''3'')])"
    by (simp add: ExecInputValuesTemplates_def demo_defs)
  have c: "\<And>f. ComputeValueOverrides (demo_env\<lparr>ApplyLayers := f\<rparr>) demo_inputs = Ok ''x: 4;''"
    by (simp add: ComputeValueOverrides_def GetLayerOptionFromFlavor_def GetLayerOption_def
        demo_defs)
  have g: "\<And>f. fst (GetManifestsFromApplicationSpec (demo_env\<lparr>ApplyLayers := f\<rparr>)
                      demo_inputs demo_spec) = Ok [''chart.tgz x: 4;'']"
    using c
    by (simp add: GetManifestsFromApplicationSpec_def getManifestsFromHelm_def demo_env_def
        demo_spec_def demo_inputs_def)
  have f: "FilterByLabel demo_spec [] = []"
    by (simp add: FilterByLabel_def demo_spec_def)
  show ?thesis
    by (simp add: ComputeResourcesForApplication_def v0 v e g f)
qed

subsection \<open>Value coalescing\<close>

text \<open>Reading one key of a merge, for an overlay without repeated keys.\<close>

lemma map_of_CoalesceValuesMap:
  assumes "distinct (map fst overlay)"
  shows "map_of (CoalesceValuesMap base overlay) key =
     (case map_of overlay key of
        None \<Rightarrow> map_of base key
      | Some (Table t) \<Rightarrow>
          (case map_of base key of
             Some (Table b) \<Rightarrow> Some (Table (CoalesceValuesMap b t))
           | _ \<Rightarrow> Some (Table t))
      | Some v \<Rightarrow> Some v)"
  using assms
proof (induction overlay arbitrary: base)
  case Nil
  show ?case by simp
next
  case (Cons entry rest)
  obtain k v where entry: "entry = (k, v)" by (cases entry)
  have nk: "map_of rest k = None"
    using Cons.prems entry by (simp add: map_of_eq_None_iff)
  have d: "distinct (map fst rest)" using Cons.prems by simp
  note ih = Cons.IH[OF d]
  show ?case
  proof (cases v)
    case (Scalar s)
    then show ?thesis
      using nk by (auto simp: entry ih update_conv' split: option.splits yaml.splits)
  next
    case (Seq ys)
    then show ?thesis
      using nk by (auto simp: entry ih update_conv' split: option.splits yaml.splits)
  next
    case (Table t)
    then show ?thesis
      using nk by (auto simp: entry ih update_conv' split: option.splits yaml.splits)
  qed
qed

lemma wellFormed_distinct: "wellFormed m \<Longrightarrow> distinct (map fst m)"
  by (induction m rule: wellFormed.induct) auto

lemma wellFormed_table:
  "wellFormed m \<Longrightarrow> map_of m key = Some (Table t) \<Longrightarrow> wellFormed t"
  by (induction m rule: wellFormed.induct) (auto split: if_splits)

lemma lookupPath_Cons:
  "rest \<noteq> [] \<Longrightarrow>
   lookupPath (key # rest) m =
     (case map_of m key of Some (Table t) \<Rightarrow> lookupPath rest t | _ \<Rightarrow> None)"
  by (cases rest) (simp_all split: option.splits yaml.splits)

lemma untouched_Cons:
  "rest \<noteq> [] \<Longrightarrow>
   untouched (key # rest) m =
     (case map_of m key of None \<Rightarrow> True | Some (Table t) \<Rightarrow> untouched rest t | Some v \<Rightarrow> False)"
  by (cases rest) (simp_all split: option.splits yaml.splits)

text \<open>A leaf that the overlay sets at a path is the value of the merge at that path.\<close>

lemma lookupPath_overlay:
  assumes "wellFormed overlay" and "lookupPath path overlay = Some v" and "isLeaf v"
  shows "lookupPath path (CoalesceValuesMap base overlay) = Some v"
  using assms
proof (induction path arbitrary: base overlay)
  case Nil
  then show ?case by simp
next
  case (Cons key rest)
  have d: "distinct (map fst overlay)" using Cons.prems(1) by (rule wellFormed_distinct)
  show ?case
  proof (cases "rest = []")
    case True
    then have "map_of overlay key = Some v" using Cons.prems(2) by simp
    then show ?thesis
      using True Cons.prems(3) by (cases v) (simp_all add: map_of_CoalesceValuesMap[OF d])
  next
    case False
    from Cons.prems(2) False obtain t where
      t: "map_of overlay key = Some (Table t)" and l: "lookupPath rest t = Some v"
      by (auto simp: lookupPath_Cons split: option.splits yaml.splits)
    have wt: "wellFormed t" using Cons.prems(1) t by (rule wellFormed_table)
    have ih: "\<And>b. lookupPath rest (CoalesceValuesMap b t) = Some v"
      using Cons.IH[OF wt l Cons.prems(3)] .
    show ?thesis
      using False t l ih
      by (simp add: lookupPath_Cons map_of_CoalesceValuesMap[OF d] split: option.splits yaml.splits)
  qed
qed

lemma untouched_lookupPath:
  "path \<noteq> [] \<Longrightarrow> untouched path m \<Longrightarrow> lookupPath path m = None"
proof (induction path arbitrary: m)
  case Nil
  then show ?case by simp
next
  case (Cons key rest)
  show ?case
  proof (cases "rest = []")
    case True
    then show ?thesis using Cons.prems by simp
  next
    case False
    then show ?thesis
      using Cons.prems Cons.IH[OF False]
      by (auto simp: lookupPath_Cons untouched_Cons split: option.splits yaml.splits)
  qed
qed

text \<open>An overlay that does not touch a path leaves the value at that path as it was.\<close>

lemma lookupPath_untouched:
  assumes "wellFormed overlay" and "untouched path overlay"
  shows "lookupPath path (CoalesceValuesMap base overlay) = lookupPath path base"
  using assms
proof (induction path arbitrary: base overlay)
  case Nil
  then show ?case by simp
next
  case (Cons key rest)
  have d: "distinct (map fst overlay)" using Cons.prems(1) by (rule wellFormed_distinct)
  show ?case
  proof (cases "rest = []")
    case True
    then show ?thesis
      using Cons.prems(2) by (simp add: map_of_CoalesceValuesMap[OF d])
  next
    case False
    show ?thesis
    proof (cases "map_of overlay key")
      case None
      then show ?thesis
        using False by (simp add: lookupPath_Cons map_of_CoalesceValuesMap[OF d])
    next
      case (Some ov)
      with Cons.prems(2) False obtain t where
        t: "ov = Table t" and u: "untouched rest t"
        by (cases ov) (auto simp: untouched_Cons)
      have wt: "wellFormed t" using Cons.prems(1) Some t wellFormed_table by blast
      have ih: "\<And>b. lookupPath rest (CoalesceValuesMap b t) = lookupPath rest b"
        using Cons.IH[OF wt u] .
      have none: "lookupPath rest t = None" using untouched_lookupPath[OF False u] .
      show ?thesis
        using False Some t ih none
        by (simp add: lookupPath_Cons map_of_CoalesceValuesMap[OF d] split: option.splits yaml.splits)
    qed
  qed
qed

lemma lookupPath_later_untouched:
  assumes "\<forall>m\<in>set later. wellFormed m \<and> untouched path m"
  shows "lookupPath path (foldl CoalesceValuesMap acc later) = lookupPath path acc"
  using assms
  by (induction later arbitrary: acc) (simp_all add: lookupPath_untouched)

lemma lookupPath_last_setter:
  assumes "wellFormed source" and "lookupPath path source = Some v" and "isLeaf v"
    and "\<forall>m\<in>set later. wellFormed m \<and> untouched path m"
  shows "lookupPath path (foldl CoalesceValuesMap acc (earlier @ source # later)) = Some v"
  using assms
  by (simp add: lookupPath_later_untouched lookupPath_overlay)

lemma coalesceLayers_sources:
  assumes "list_all2 (layerSource env flavor) layerInputs layerValues"
  shows "coalesceLayers env flavor acc layerInputs = Ok (foldl CoalesceValuesMap acc layerValues)"
  using assms
proof (induction layerInputs layerValues arbitrary: acc rule: list_all2_induct)
  case Nil
  show ?case by simp
next
  case (Cons layerInput layerInputs m ms)
  from Cons.hyps(1) show ?case
    by (auto simp: layerSource_def Cons.IH split: sum.splits if_splits)
qed

lemma CoalesceValuesMap_examples:
  "CoalesceValuesMap [(''a'', Table [(''b'', Scalar ''1''), (''c'', Scalar ''2'')])]
     [(''a'', Table [(''b'', Scalar ''9'')])] =
     [(''a'', Table [(''b'', Scalar ''9''), (''c'', Scalar ''2'')])]"
  "CoalesceValuesMap [(''a'', Seq [Scalar ''1'', Scalar ''2''])] [(''a'', Seq [Scalar ''3''])] =
     [(''a'', Seq [Scalar ''3''])]"
  by simp_all

text \<open>
  C1. When the spec-defined values, the values fragment of every supplied layer input's
  option, the parameter map and the user-defined values all convert,
  \<open>ComputeValueOverrides\<close> returns the serialization of the merge of these sources in
  the order: spec values, each layer input's option values in the order supplied,
  parameter map, user values. In that merge a leaf (a scalar or a sequence) that a source
  sets at a path is the final value at the path, whenever no later source touches the
  path; so a later source overrides an earlier one.
\<close>

theorem ComputeValueOverrides_precedence:
  assumes sv: "ConvertYamlStringToNestedMap env (SpecDefinedValues inputs) = Inr specValues"
    and lv: "list_all2 (layerSource env (Flavor inputs)) (Layers inputs) layerValues"
    and pv: "ConvertParamsToNestedMap env (Params inputs) = Inr paramValues"
    and uv: "ConvertYamlStringToNestedMap env (UserDefinedValues inputs) = Inr userValues"
  shows "let sources = specValues # layerValues @ [paramValues, userValues];
             merged = foldl CoalesceValuesMap [] sources
         in ComputeValueOverrides env inputs = serialize env merged \<and>
            (\<forall>earlier source later path v.
               sources = earlier @ source # later \<and> wellFormed source \<and>
               (\<forall>m\<in>set later. wellFormed m \<and> untouched path m) \<and>
               lookupPath path source = Some v \<and> isLeaf v \<longrightarrow>
               lookupPath path merged = Some v)"
proof -
  let ?sources = "specValues # layerValues @ [paramValues, userValues]"
  let ?merged = "foldl CoalesceValuesMap [] ?sources"
  have layers: "coalesceLayers env (Flavor inputs) (CoalesceValuesMap [] specValues) (Layers inputs) =
          Ok (foldl CoalesceValuesMap (CoalesceValuesMap [] specValues) layerValues)"
    by (rule coalesceLayers_sources[OF lv])
  have run: "ComputeValueOverrides env inputs = serialize env ?merged"
    by (simp add: ComputeValueOverrides_def serialize_def sv layers pv uv)
  have prec: "\<forall>earlier source later path v.
               ?sources = earlier @ source # later \<and> wellFormed source \<and>
               (\<forall>m\<in>set later. wellFormed m \<and> untouched path m) \<and>
               lookupPath path source = Some v \<and> isLeaf v \<longrightarrow>
               lookupPath path ?merged = Some v"
  proof (intro allI impI)
    fix earlier source later path v
    assume a: "?sources = earlier @ source # later \<and> wellFormed source \<and>
               (\<forall>m\<in>set later. wellFormed m \<and> untouched path m) \<and>
               lookupPath path source = Some v \<and> isLeaf v"
    then have "lookupPath path (foldl CoalesceValuesMap [] (earlier @ source # later)) = Some v"
      by (intro lookupPath_last_setter) simp_all
    with a show "lookupPath path ?merged = Some v" by simp
  qed
  from run prec show ?thesis unfolding Let_def by blast
qed

text \<open>
  The instance of the spec: spec \<open>x: 1\<close>, layer option \<open>x: 2\<close>, parameter \<open>x = 3\<close>,
  user value \<open>x: 4\<close> give \<open>x: 4\<close>; without the user value \<open>x: 3\<close>; without the
  parameter as well \<open>x: 2\<close>.
\<close>

theorem ComputeValueOverrides_precedence_witness:
  "ComputeValueOverrides demo_env demo_inputs = Ok ''x: 4;'' \<and>
   lookupPath [''x'']
     (foldl CoalesceValuesMap []
        [[(''x'', Scalar ''1'')], [(''x'', Scalar ''2'')], [(''x'', Scalar ''3'')],
         [(''x'', Scalar ''4'')]]) = Some (Scalar ''4'') \<and>
   ComputeValueOverrides demo_env (demo_inputs\<lparr>UserDefinedValues := []\<rparr>) = Ok ''x: 3;'' \<and>
   lookupPath [''x'']
     (foldl CoalesceValuesMap []
        [[(''x'', Scalar ''1'')], [(''x'', Scalar ''2'')], [(''x'', Scalar ''3'')], []]) =
     Some (Scalar ''3'') \<and>
   ComputeValueOverrides demo_env (demo_inputs\<lparr>UserDefinedValues := [], Params := []\<rparr>) =
     Ok ''x: 2;'' \<and>
   lookupPath [''x'']
     (foldl CoalesceValuesMap [] [[(''x'', Scalar ''1'')], [(''x'', Scalar ''2'')], [], []]) =
     Some (Scalar ''2'')"
proof -
  let ?x = "\<lambda>v. [(''x'', Scalar v)]"
  have l: "\<And>u p. list_all2
             (layerSource demo_env (Flavor (demo_inputs\<lparr>UserDefinedValues := u, Params := p\<rparr>)))
             (Layers (demo_inputs\<lparr>UserDefinedValues := u, Params := p\<rparr>)) [?x ''2'']"
    by (simp add: layerSource_def GetLayerOptionFromFlavor_def GetLayerOption_def demo_defs)
  have s: "\<And>u p. ConvertYamlStringToNestedMap demo_env
             (SpecDefinedValues (demo_inputs\<lparr>UserDefinedValues := u, Params := p\<rparr>)) = Inr (?x ''1'')"
    by (simp add: demo_defs)
  have p3: "\<And>u. ConvertParamsToNestedMap demo_env
             (Params (demo_inputs\<lparr>UserDefinedValues := u, Params := [(''x'', ''3'')]\<rparr>)) = Inr (?x ''3'')"
    by (simp add: demo_defs)
  have p0: "\<And>u. ConvertParamsToNestedMap demo_env
             (Params (demo_inputs\<lparr>UserDefinedValues := u, Params := []\<rparr>)) = Inr []"
    by (simp add: demo_defs)
  have u4: "\<And>p. ConvertYamlStringToNestedMap demo_env
             (UserDefinedValues (demo_inputs\<lparr>UserDefinedValues := ''x: 4'', Params := p\<rparr>)) = Inr (?x ''4'')"
    by (simp add: demo_defs)
  have u0: "\<And>p. ConvertYamlStringToNestedMap demo_env
             (UserDefinedValues (demo_inputs\<lparr>UserDefinedValues := [], Params := p\<rparr>)) = Inr []"
    by (simp add: demo_defs)
  have i4: "demo_inputs\<lparr>UserDefinedValues := ''x: 4'', Params := [(''x'', ''3'')]\<rparr> = demo_inputs"
    by (simp add: demo_inputs_def)
  have i3: "demo_inputs\<lparr>UserDefinedValues := [], Params := [(''x'', ''3'')]\<rparr> =
            demo_inputs\<lparr>UserDefinedValues := []\<rparr>"
    by (simp add: demo_inputs_def)
  have ser: "\<And>m. serialize demo_env m = Ok (concat (map (\<lambda>(k, v). k @ '': '' @ (case v of Scalar s \<Rightarrow> s | _ \<Rightarrow> ''...'') @ '';'') m))"
    by (simp add: serialize_def demo_env_def demo_writeYaml_def)
  note t4 = ComputeValueOverrides_precedence[OF s l p3 u4, unfolded Let_def i4]
  note t3 = ComputeValueOverrides_precedence[OF s l p3 u0, unfolded Let_def i3]
  note t2 = ComputeValueOverrides_precedence[OF s l p0 u0, unfolded Let_def]
  have a4: "ComputeValueOverrides demo_env demo_inputs = Ok ''x: 4;''"
    using t4 by (simp add: ser)
  have a3: "ComputeValueOverrides demo_env (demo_inputs\<lparr>UserDefinedValues := []\<rparr>) = Ok ''x: 3;''"
    using t3 by (simp add: ser)
  have a2: "ComputeValueOverrides demo_env (demo_inputs\<lparr>UserDefinedValues := [], Params := []\<rparr>) = Ok ''x: 2;''"
    using t2 by (simp add: ser)
  have b4: "lookupPath [''x''] (foldl CoalesceValuesMap [] [?x ''1'', ?x ''2'', ?x ''3'', ?x ''4'']) = Some (Scalar ''4'')"
    using t4[THEN conjunct2, rule_format, of "[?x ''1'', ?x ''2'', ?x ''3'']" "?x ''4''" "[]" "[''x'']" "Scalar ''4''"]
    by simp
  have b3: "lookupPath [''x''] (foldl CoalesceValuesMap [] [?x ''1'', ?x ''2'', ?x ''3'', []]) = Some (Scalar ''3'')"
    using t3[THEN conjunct2, rule_format, of "[?x ''1'', ?x ''2'']" "?x ''3''" "[[]]" "[''x'']" "Scalar ''3''"]
    by simp
  have b2: "lookupPath [''x''] (foldl CoalesceValuesMap [] [?x ''1'', ?x ''2'', [], []]) = Some (Scalar ''2'')"
    using t2[THEN conjunct2, rule_format, of "[?x ''1'']" "?x ''2''" "[[], []]" "[''x'']" "Scalar ''2''"]
    by simp
  from a4 b4 a3 b3 a2 b2 show ?thesis by simp
qed

end
